theory Spec2Isabelle
  imports Complex_Main
begin

section \<open>JavaScript values\<close>

text \<open>
  A number-valued property is a \<open>real option\<close>: \<open>None\<close> is a property that is missing
  (\<open>undefined\<close>), \<open>Some x\<close> a number, the real that the double denotes. For a decimal
  string of the feed (\<open>miss_distance.lunar\<close> and the like) the property holds the number
  \<open>parseFloat\<close> reads from it, \<open>None\<close> when it reads \<open>NaN\<close>.
\<close>

definition truthy :: "real option \<Rightarrow> bool" where
  "truthy v = (case v of None \<Rightarrow> False | Some x \<Rightarrow> x \<noteq> 0)"

text \<open>The relational operators on a possibly missing operand: \<open>undefined\<close> becomes
  \<open>NaN\<close>, and every comparison with \<open>NaN\<close> is false.\<close>

definition js_lt :: "real option \<Rightarrow> real option \<Rightarrow> bool" where
  "js_lt a b = (case (a, b) of (Some x, Some y) \<Rightarrow> x < y | _ \<Rightarrow> False)"

definition js_gt :: "real option \<Rightarrow> real option \<Rightarrow> bool" where
  "js_gt a b = (case (a, b) of (Some x, Some y) \<Rightarrow> x > y | _ \<Rightarrow> False)"

definition js_ge :: "real option \<Rightarrow> real option \<Rightarrow> bool" where
  "js_ge a b = (case (a, b) of (Some x, Some y) \<Rightarrow> x \<ge> y | _ \<Rightarrow> False)"

text \<open>\<open>v || 0\<close> on a number: a missing or zero operand gives 0.\<close>

definition or0 :: "real option \<Rightarrow> real" where
  "or0 v = (case v of None \<Rightarrow> 0 | Some x \<Rightarrow> x)"

text \<open>\<open>Math.round\<close>: the nearest integer, a tie going up.\<close>

definition Math_round :: "real \<Rightarrow> int" where
  "Math_round x = \<lfloor>x + 1 / 2\<rfloor>"

section \<open>Double arithmetic\<close>

text \<open>
  A finite double is the real number it denotes. An arithmetic operation of the program
  returns the double nearest to the exact result, a tie going to the even significand:
  IEEE 754 binary64, with 53 bits and the least exponent -1022, below which the spacing
  stays that of the subnormals. \<open>rne\<close> is the nearest integer with ties to even,
  \<open>ulp_exp x\<close> the exponent of the spacing of the doubles around \<open>x\<close>, and \<open>rd x\<close> the
  double nearest to \<open>x\<close>. A literal of the source such as \<open>0.40\<close> is \<open>rd 0.40\<close>.

  A number property holds a finite double. Overflow to \<open>Infinity\<close> is not represented: the
  one operation of the risk engine that can overflow, the product \<open>(velocity / 30) * 100\<close>
  for a velocity beyond 5e307, goes through \<open>Math.min(100, ...)\<close> next, which returns 100
  for \<open>Infinity\<close> as for the large number it stands for.
\<close>

definition rne :: "real \<Rightarrow> int" where
  "rne x =
     (let f = \<lfloor>x\<rfloor>; r = x - of_int f
      in if r < 1 / 2 then f
         else if r > 1 / 2 then f + 1
         else if even f then f else f + 1)"

definition ulp_exp :: "real \<Rightarrow> int" where
  "ulp_exp x = max \<lfloor>log 2 \<bar>x\<bar>\<rfloor> (- 1022) - 52"

definition rd :: "real \<Rightarrow> real" where
  "rd x =
     (if x = 0 then 0
      else of_int (rne (x / 2 powr of_int (ulp_exp x))) * 2 powr of_int (ulp_exp x))"

definition fl_add :: "real \<Rightarrow> real \<Rightarrow> real" where
  "fl_add a b = rd (a + b)"

definition fl_sub :: "real \<Rightarrow> real \<Rightarrow> real" where
  "fl_sub a b = rd (a - b)"

definition fl_mul :: "real \<Rightarrow> real \<Rightarrow> real" where
  "fl_mul a b = rd (a * b)"

definition fl_div :: "real \<Rightarrow> real \<Rightarrow> real" where
  "fl_div a b = rd (a / b)"

section \<open>The objects of the feed and of the store\<close>

record diameter_range =
  estimated_diameter_min :: "real option"
  estimated_diameter_max :: "real option"

record miss_distance =
  astronomical :: "real option"
  lunar :: "real option"
  kilometers :: "real option"

record relative_velocity =
  kilometers_per_second :: "real option"
  kilometers_per_hour :: "real option"

record close_approach_entry =
  close_approach_date :: "string option"
  close_approach_date_full :: "string option"
  miss_distance :: "miss_distance option"
  relative_velocity :: "relative_velocity option"
  orbiting_body :: "string option"

text \<open>
  The argument of \<open>calculateRiskScore\<close> and \<open>upsertFromNASA\<close>: an object in the feed's
  shape or in the stored shape, with every property the two functions read.
  \<open>estimated_diameter_meters\<close> is the path \<open>estimated_diameter?.meters\<close>; a missing
  \<open>close_approach_data\<close> is the empty list, which \<open>?.[0]\<close> does not tell apart.
\<close>

record neo =
  neo_id :: "string option"
  neo_neo_reference_id :: "string option"
  neo_name :: "string option"
  nasa_jpl_url :: "string option"
  absolute_magnitude_h :: "real option"
  is_potentially_hazardous_asteroid :: "bool option"
  estimated_diameter_meters :: "diameter_range option"
  close_approach_data :: "close_approach_entry list"
  neo_isPotentiallyHazardous :: "bool option"
  neo_estimatedDiameterMax :: "real option"
  neo_missDistanceLunar :: "real option"
  neo_relativeVelocityKmS :: "real option"

datatype risk_category = minimal | low | moderate | high

section \<open>riskEngine.js\<close>

definition MAX_DIAMETER :: real where "MAX_DIAMETER = 1000"
definition MAX_VELOCITY :: real where "MAX_VELOCITY = 30"
definition MIN_SAFE_DISTANCE :: real where "MIN_SAFE_DISTANCE = 1"
definition MAX_CONCERNING_DISTANCE :: real where "MAX_CONCERNING_DISTANCE = 50"

text \<open>
  The three sub-scores, first in exact arithmetic: the functions of the diameter, the
  distance and the velocity that the source's formulas denote.
\<close>

definition calculateDiameterScore :: "real option \<Rightarrow> real" where
  "calculateDiameterScore diameterMeters =
     (case diameterMeters of
        None \<Rightarrow> 0
      | Some d \<Rightarrow>
          if \<not> truthy (Some d) \<or> d \<le> 0 then 0
          else let logScore = (log 10 d / log 10 MAX_DIAMETER) * 100
               in min 100 (max 0 logScore))"

definition calculateDistanceScore :: "real option \<Rightarrow> real" where
  "calculateDistanceScore lunarDistance =
     (case lunarDistance of
        None \<Rightarrow> 100
      | Some d \<Rightarrow>
          if \<not> truthy (Some d) \<or> d \<le> 0 then 100
          else if d \<le> MIN_SAFE_DISTANCE then 100
          else if d \<ge> MAX_CONCERNING_DISTANCE then 0
          else let score = ((MAX_CONCERNING_DISTANCE - d) /
                            (MAX_CONCERNING_DISTANCE - MIN_SAFE_DISTANCE)) * 100
               in min 100 (max 0 score))"

definition calculateVelocityScore :: "real option \<Rightarrow> real" where
  "calculateVelocityScore velocityKmS =
     (case velocityKmS of
        None \<Rightarrow> 0
      | Some v \<Rightarrow>
          if \<not> truthy (Some v) \<or> v \<le> 0 then 0
          else let score = (v / MAX_VELOCITY) * 100
               in min 100 (max 0 score))"

text \<open>
  The same three functions as the program computes them, every operation rounded to a
  double. \<open>Math.log10\<close> is approximated by the platform; what it returns is the parameter
  \<open>Math_log10\<close>.
\<close>

definition calculateDiameterScore_dbl :: "(real \<Rightarrow> real) \<Rightarrow> real option \<Rightarrow> real" where
  "calculateDiameterScore_dbl Math_log10 diameterMeters =
     (case diameterMeters of
        None \<Rightarrow> 0
      | Some d \<Rightarrow>
          if \<not> truthy (Some d) \<or> d \<le> 0 then 0
          else let logScore = fl_mul (fl_div (Math_log10 d) (Math_log10 MAX_DIAMETER)) 100
               in min 100 (max 0 logScore))"

definition calculateDistanceScore_dbl :: "real option \<Rightarrow> real" where
  "calculateDistanceScore_dbl lunarDistance =
     (case lunarDistance of
        None \<Rightarrow> 100
      | Some d \<Rightarrow>
          if \<not> truthy (Some d) \<or> d \<le> 0 then 100
          else if d \<le> MIN_SAFE_DISTANCE then 100
          else if d \<ge> MAX_CONCERNING_DISTANCE then 0
          else let score = fl_mul (fl_div (fl_sub MAX_CONCERNING_DISTANCE d)
                                     (fl_sub MAX_CONCERNING_DISTANCE MIN_SAFE_DISTANCE)) 100
               in min 100 (max 0 score))"

definition calculateVelocityScore_dbl :: "real option \<Rightarrow> real" where
  "calculateVelocityScore_dbl velocityKmS =
     (case velocityKmS of
        None \<Rightarrow> 0
      | Some v \<Rightarrow>
          if \<not> truthy (Some v) \<or> v \<le> 0 then 0
          else let score = fl_mul (fl_div v MAX_VELOCITY) 100
               in min 100 (max 0 score))"

definition getRiskCategory :: "int \<Rightarrow> risk_category" where
  "getRiskCategory score =
     (if score \<ge> 76 then high
      else if score \<ge> 51 then moderate
      else if score \<ge> 26 then low
      else minimal)"

record breakdown =
  b_hazardWeight :: int
  b_diameterScore :: int
  b_distanceScore :: int
  b_velocityScore :: int

record factors =
  isHazardous :: bool
  diameterMeters :: real
  lunarDistance :: real
  velocityKmS :: real

record risk =
  score :: int
  category :: risk_category
  breakdown :: breakdown
  factors :: factors

text \<open>The three fallback chains of \<open>calculateRiskScore\<close>, one definition each.\<close>

definition risk_isHazardous :: "neo \<Rightarrow> bool" where
  "risk_isHazardous asteroid =
     (case is_potentially_hazardous_asteroid asteroid of
        Some b \<Rightarrow> b
      | None \<Rightarrow> (case neo_isPotentiallyHazardous asteroid of Some b \<Rightarrow> b | None \<Rightarrow> False))"

definition risk_diameter :: "neo \<Rightarrow> real option" where
  "risk_diameter asteroid =
     (let diameter = neo_estimatedDiameterMax asteroid
      in if \<not> truthy diameter then
           (case estimated_diameter_meters asteroid of
              Some m \<Rightarrow> estimated_diameter_max m
            | None \<Rightarrow> diameter)
         else diameter)"

definition risk_lunarDistance :: "neo \<Rightarrow> real option" where
  "risk_lunarDistance asteroid =
     (let lunarDistance = neo_missDistanceLunar asteroid
      in if \<not> truthy lunarDistance then
           (case close_approach_data asteroid of
              c # _ \<Rightarrow> Some (or0 (case miss_distance c of Some m \<Rightarrow> lunar m | None \<Rightarrow> None))
            | [] \<Rightarrow> lunarDistance)
         else lunarDistance)"

definition risk_velocity :: "neo \<Rightarrow> real option" where
  "risk_velocity asteroid =
     (let velocity = neo_relativeVelocityKmS asteroid
      in if \<not> truthy velocity then
           (case close_approach_data asteroid of
              c # _ \<Rightarrow> Some (or0 (case relative_velocity c of
                                     Some r \<Rightarrow> kilometers_per_second r | None \<Rightarrow> None))
            | [] \<Rightarrow> velocity)
         else velocity)"

text \<open>\<open>calculateRiskScore\<close>, in double arithmetic; the sum is taken from left to right.\<close>

definition calculateRiskScore :: "(real \<Rightarrow> real) \<Rightarrow> neo \<Rightarrow> risk" where
  "calculateRiskScore Math_log10 asteroid =
     (let isHaz = risk_isHazardous asteroid;
          diameter = risk_diameter asteroid;
          lunarDist = risk_lunarDistance asteroid;
          velocity = risk_velocity asteroid;
          hazardWeight = (if isHaz then 100 else 0 :: real);
          diameterScore = calculateDiameterScore_dbl Math_log10 diameter;
          distanceScore = calculateDistanceScore_dbl lunarDist;
          velocityScore = calculateVelocityScore_dbl velocity;
          totalScore = Math_round
            (fl_add (fl_add (fl_add (fl_mul hazardWeight (rd 0.40))
                                    (fl_mul diameterScore (rd 0.25)))
                            (fl_mul distanceScore (rd 0.25)))
                    (fl_mul velocityScore (rd 0.10)));
          finalScore = min 100 (max 1 totalScore)
      in \<lparr> score = finalScore,
           category = getRiskCategory finalScore,
           breakdown = \<lparr> b_hazardWeight = Math_round (fl_mul hazardWeight (rd 0.40)),
                         b_diameterScore = Math_round (fl_mul diameterScore (rd 0.25)),
                         b_distanceScore = Math_round (fl_mul distanceScore (rd 0.25)),
                         b_velocityScore = Math_round (fl_mul velocityScore (rd 0.10)) \<rparr>,
           factors = \<lparr> isHazardous = isHaz,
                       diameterMeters = or0 diameter,
                       lunarDistance = or0 lunarDist,
                       velocityKmS = or0 velocity \<rparr> \<rparr>)"

text \<open>An object with no property at all: not hazardous, no diameter, no distance, no
  velocity.\<close>

definition unknown_neo :: neo where
  "unknown_neo =
     \<lparr> neo_id = None, neo_neo_reference_id = None, neo_name = None, nasa_jpl_url = None,
       absolute_magnitude_h = None, is_potentially_hazardous_asteroid = None,
       estimated_diameter_meters = None, close_approach_data = [],
       neo_isPotentiallyHazardous = None, neo_estimatedDiameterMax = None,
       neo_missDistanceLunar = None, neo_relativeVelocityKmS = None \<rparr>"

section \<open>The stored documents\<close>

text \<open>
  An \<open>Asteroid\<close> document as \<open>find(...).lean()\<close> returns it. Instants are integers,
  milliseconds since the epoch; \<open>None\<close> in a date property is a missing or invalid date.
  \<open>a_createdAt\<close> and \<open>a_updatedAt\<close> are the paths \<open>createdAt\<close> and \<open>updatedAt\<close> that the
  schema option \<open>timestamps: true\<close> adds; \<open>_id\<close> and \<open>__v\<close> are left out. \<open>riskScore\<close> is a
  \<open>Number\<close> path, hence a real.
\<close>

record asteroid =
  neo_reference_id :: "string option"
  name :: "string option"
  a_nasa_jpl_url :: "string option"
  a_absolute_magnitude_h :: "real option"
  riskScore :: "real option"
  riskCategory :: "risk_category option"
  isPotentiallyHazardous :: "bool option"
  estimatedDiameterMin :: "real option"
  estimatedDiameterMax :: "real option"
  closeApproachDate :: "int option"
  closeApproachDateFull :: "string option"
  missDistanceKm :: "real option"
  missDistanceAu :: "real option"
  missDistanceLunar :: "real option"
  relativeVelocityKmS :: "real option"
  relativeVelocityKmH :: "real option"
  orbitingBody :: "string option"
  raw_data :: "neo option"
  expiresAt :: "int option"
  lastFetchedAt :: "int option"
  a_createdAt :: "int option"
  a_updatedAt :: "int option"

record alert_settings =
  enabled :: "bool option"
  minDiameter :: "real option"
  maxDistance :: "real option"
  riskThreshold :: "real option"

record user =
  user_id :: nat
  email :: string
  watched_asteroid_ids :: "string list"
  alertSettings :: alert_settings

datatype alert_type = close_approach | high_risk | watched_update | new_hazardous

datatype severity = info | warning | danger

record alert_data =
  d_riskScore :: "real option"
  d_missDistanceKm :: "real option"
  d_missDistanceLunar :: "real option"
  d_closeApproachDate :: "int option"
  d_velocity :: "real option"
  d_diameter :: "real option"

text \<open>An \<open>Alert\<close> document; \<open>title\<close> and \<open>message\<close>, two formatted texts, are left out.\<close>

record alert =
  userId :: nat
  asteroidId :: "string option"
  asteroidName :: "string option"
  alert_type :: alert_type
  alert_severity :: severity
  alert_data :: alert_data
  isRead :: bool
  eventDate :: "int option"
  createdAt :: int

datatype error = ValidationError | StoreError

section \<open>alertDispatcher.js\<close>

definition matchesUserThresholds :: "asteroid \<Rightarrow> alert_settings \<Rightarrow> bool" where
  "matchesUserThresholds a st =
     (if truthy (minDiameter st) \<and> js_lt (estimatedDiameterMax a) (minDiameter st) then False
      else if truthy (maxDistance st) \<and> js_gt (missDistanceLunar a) (maxDistance st) then False
      else if truthy (riskThreshold st) \<and> js_lt (riskScore a) (riskThreshold st) then False
      else True)"

definition day_ms :: int where
  "day_ms = 24 * 60 * 60 * 1000"

text \<open>\<open>Alert.findOne({userId, asteroidId, createdAt: {$gte: since}})\<close>: the first document
  of the collection that matches. The query names no \<open>type\<close>.\<close>

definition Alert_findOne :: "alert list \<Rightarrow> nat \<Rightarrow> string option \<Rightarrow> int \<Rightarrow> alert option" where
  "Alert_findOne docs uid aid since =
     find (\<lambda>r. userId r = uid \<and> asteroidId r = aid \<and> createdAt r \<ge> since) docs"

definition required_string :: "string option \<Rightarrow> bool" where
  "required_string v = (case v of None \<Rightarrow> False | Some t \<Rightarrow> t \<noteq> [])"

text \<open>
  \<open>Alert.createCloseApproachAlert\<close> at the instant \<open>t\<close>, which becomes \<open>createdAt\<close>. The
  schema's \<open>required\<close> validators reject a document without \<open>asteroidId\<close> or
  \<open>asteroidName\<close>; \<open>rejects\<close> says that the store itself refuses the write.
\<close>

definition createCloseApproachAlert :: "int \<Rightarrow> bool \<Rightarrow> user \<Rightarrow> asteroid \<Rightarrow> error + alert" where
  "createCloseApproachAlert t rejects u a =
     (let sev = (if js_ge (riskScore a) (Some 75) then danger
                 else if js_ge (riskScore a) (Some 50) then warning
                 else info)
      in if \<not> required_string (neo_reference_id a) \<or> \<not> required_string (name a)
         then Inl ValidationError
         else if rejects then Inl StoreError
         else Inr \<lparr> userId = user_id u,
                    asteroidId = neo_reference_id a,
                    asteroidName = name a,
                    alert_type = close_approach,
                    alert_severity = sev,
                    alert_data = \<lparr> d_riskScore = riskScore a,
                                   d_missDistanceKm = missDistanceKm a,
                                   d_missDistanceLunar = missDistanceLunar a,
                                   d_closeApproachDate = closeApproachDate a,
                                   d_velocity = relativeVelocityKmS a,
                                   d_diameter = estimatedDiameterMax a \<rparr>,
                    isRead = False,
                    eventDate = closeApproachDate a,
                    createdAt = t \<rparr>)"

text \<open>
  The alert collection, and the \<open>CLOSE_APPROACH_ALERT\<close> events emitted so far, each with the
  user whose channel \<open>user:<id>\<close> it went to.
\<close>

record alert_state =
  alerts :: "alert list"
  emitted :: "(nat \<times> alert) list"

text \<open>
  What one call of \<open>createAlertForUser\<close> meets: the clock it reads for the query, the
  time that passes until the document is created, and whether a store call rejects.
\<close>

datatype fault = no_fault | findOne_rejects | create_rejects

record call_env =
  ce_now :: int
  ce_delay :: nat
  ce_fault :: fault

text \<open>The body of the \<open>try\<close>, for a call that nothing interrupts between its two store
  calls: \<open>Inl\<close> is a thrown error. Calls that overlap are the steps of \<open>reachable\<close>
  below.\<close>

definition createAlertForUser_try ::
  "call_env \<Rightarrow> bool \<Rightarrow> user \<Rightarrow> asteroid \<Rightarrow> alert_state \<Rightarrow> error + (alert option \<times> alert_state)" where
  "createAlertForUser_try e io u a s =
     (if ce_fault e = findOne_rejects then Inl StoreError
      else case Alert_findOne (alerts s) (user_id u) (neo_reference_id a) (ce_now e - day_ms) of
        Some existingAlert \<Rightarrow> Inr (None, s)
      | None \<Rightarrow>
          (case createCloseApproachAlert (ce_now e + int (ce_delay e))
                  (ce_fault e = create_rejects) u a of
             Inl err \<Rightarrow> Inl err
           | Inr al \<Rightarrow>
               Inr (Some al,
                    s\<lparr> alerts := alerts s @ [al],
                       emitted := (if io then emitted s @ [(user_id u, al)] else emitted s) \<rparr>)))"

definition createAlertForUser ::
  "call_env \<Rightarrow> bool \<Rightarrow> user \<Rightarrow> asteroid \<Rightarrow> alert_state \<Rightarrow> alert option \<times> alert_state" where
  "createAlertForUser e io u a s =
     (case createAlertForUser_try e io u a s of
        Inl err \<Rightarrow> (None, s)
      | Inr r \<Rightarrow> r)"

text \<open>The two \<open>User.find\<close> queries of the sweep.\<close>

definition watches :: "user \<Rightarrow> asteroid \<Rightarrow> bool" where
  "watches u a =
     (case neo_reference_id a of None \<Rightarrow> False | Some i \<Rightarrow> i \<in> set (watched_asteroid_ids u))"

definition watchingUsers :: "user list \<Rightarrow> asteroid \<Rightarrow> user list" where
  "watchingUsers users a =
     filter (\<lambda>u. watches u a \<and> enabled (alertSettings u) = Some True) users"

definition thresholdUsers :: "user list \<Rightarrow> asteroid \<Rightarrow> user list" where
  "thresholdUsers users a =
     (if js_ge (riskScore a) (Some 50) then
        filter (\<lambda>u. enabled (alertSettings u) = Some True \<and>
                    js_ge (riskScore a) (riskThreshold (alertSettings u)) \<and>
                    \<not> watches u a) users
      else [])"

definition usersToAlert :: "user list \<Rightarrow> asteroid \<Rightarrow> user list" where
  "usersToAlert users a = watchingUsers users a @ thresholdUsers users a"

text \<open>
  What a sweep meets: whether \<open>Asteroid.find\<close> rejects, whether \<open>User.find\<close> rejects for a
  given object, and the environment of the \<open>createAlertForUser\<close> call for a given user and
  object.
\<close>

record sweep_env =
  asteroid_find_rejects :: bool
  user_find_rejects :: "string option \<Rightarrow> bool"
  call_envs :: "nat \<Rightarrow> string option \<Rightarrow> call_env"

text \<open>The inner loop, over the users to alert for one object.\<close>

fun alert_users ::
  "sweep_env \<Rightarrow> bool \<Rightarrow> asteroid \<Rightarrow> user list \<Rightarrow> nat \<Rightarrow> alert_state \<Rightarrow> nat \<times> alert_state" where
  "alert_users env io a [] n s = (n, s)"
| "alert_users env io a (u # us) n s =
     (if matchesUserThresholds a (alertSettings u) then
        (case createAlertForUser (call_envs env (user_id u) (neo_reference_id a)) io u a s of
           (Some al, s') \<Rightarrow> alert_users env io a us (n + 1) s'
         | (None, s') \<Rightarrow> alert_users env io a us n s')
      else alert_users env io a us n s)"

text \<open>The outer loop, over the upcoming objects; \<open>None\<close> as count: a query rejected and the
  loop was left by the exception.\<close>

fun dispatch_loop ::
  "sweep_env \<Rightarrow> bool \<Rightarrow> user list \<Rightarrow> asteroid list \<Rightarrow> nat \<Rightarrow> alert_state \<Rightarrow>
   nat option \<times> alert_state" where
  "dispatch_loop env io users [] n s = (Some n, s)"
| "dispatch_loop env io users (a # as) n s =
     (if user_find_rejects env (neo_reference_id a) then (None, s)
      else case alert_users env io a (usersToAlert users a) n s of
        (n', s') \<Rightarrow> dispatch_loop env io users as n' s')"

text \<open>\<open>futureDate\<close>: \<open>setDate(getDate() + daysAhead)\<close>, with days of 24 hours.\<close>

definition futureDate :: "int \<Rightarrow> int \<Rightarrow> int" where
  "futureDate now daysAhead = now + daysAhead * day_ms"

definition upcomingAsteroids :: "int \<Rightarrow> int \<Rightarrow> asteroid list \<Rightarrow> asteroid list" where
  "upcomingAsteroids now daysAhead db =
     filter (\<lambda>a. case closeApproachDate a of
                   None \<Rightarrow> False
                 | Some d \<Rightarrow> d \<ge> now \<and> d \<le> futureDate now daysAhead) db"

record sweep_result =
  alertsSent :: nat
  sweep_failed :: bool

definition checkAndDispatchAlerts ::
  "sweep_env \<Rightarrow> bool \<Rightarrow> int \<Rightarrow> int \<Rightarrow> asteroid list \<Rightarrow> user list \<Rightarrow> alert_state \<Rightarrow>
   sweep_result \<times> alert_state" where
  "checkAndDispatchAlerts env io now daysAhead db users s =
     (if asteroid_find_rejects env then (\<lparr> alertsSent = 0, sweep_failed = True \<rparr>, s)
      else let upcoming = upcomingAsteroids now daysAhead db
           in if length upcoming = 0 then (\<lparr> alertsSent = 0, sweep_failed = False \<rparr>, s)
              else case dispatch_loop env io users upcoming 0 s of
                (Some n, s') \<Rightarrow> (\<lparr> alertsSent = n, sweep_failed = False \<rparr>, s')
              | (None, s') \<Rightarrow> (\<lparr> alertsSent = 0, sweep_failed = True \<rparr>, s'))"

text \<open>
  The spec's scorer. Its inputs are normalised from the object: each of the four comes from
  the stored shape when the object has it there (and it is not 0), otherwise from the feed
  shape, and a missing one is 0 or false. The score is the weighted sum of the four
  sub-scores of these inputs, each product and sum a double, rounded and clamped to 1..100.
\<close>

definition spec_normalize :: "neo \<Rightarrow> factors" where
  "spec_normalize a =
     \<lparr> isHazardous =
         (case is_potentially_hazardous_asteroid a of
            Some b \<Rightarrow> b
          | None \<Rightarrow> (case neo_isPotentiallyHazardous a of Some b \<Rightarrow> b | None \<Rightarrow> False)),
       diameterMeters =
         (if truthy (neo_estimatedDiameterMax a) then or0 (neo_estimatedDiameterMax a)
          else case estimated_diameter_meters a of
                 Some m \<Rightarrow> or0 (estimated_diameter_max m)
               | None \<Rightarrow> 0),
       lunarDistance =
         (if truthy (neo_missDistanceLunar a) then or0 (neo_missDistanceLunar a)
          else case close_approach_data a of
                 c # _ \<Rightarrow> (case miss_distance c of Some m \<Rightarrow> or0 (lunar m) | None \<Rightarrow> 0)
               | [] \<Rightarrow> 0),
       velocityKmS =
         (if truthy (neo_relativeVelocityKmS a) then or0 (neo_relativeVelocityKmS a)
          else case close_approach_data a of
                 c # _ \<Rightarrow> (case relative_velocity c of
                             Some r \<Rightarrow> or0 (kilometers_per_second r) | None \<Rightarrow> 0)
               | [] \<Rightarrow> 0) \<rparr>"

definition spec_weighted_sum :: "(real \<Rightarrow> real) \<Rightarrow> factors \<Rightarrow> real" where
  "spec_weighted_sum Math_log10 f =
     fl_add (fl_add (fl_add
       (fl_mul (if isHazardous f then 100 else 0) (rd 0.40))
       (fl_mul (calculateDiameterScore_dbl Math_log10 (Some (diameterMeters f))) (rd 0.25)))
       (fl_mul (calculateDistanceScore_dbl (Some (lunarDistance f))) (rd 0.25)))
       (fl_mul (calculateVelocityScore_dbl (Some (velocityKmS f))) (rd 0.10))"

definition spec_score :: "(real \<Rightarrow> real) \<Rightarrow> factors \<Rightarrow> int" where
  "spec_score Math_log10 f = min 100 (max 1 (round (spec_weighted_sum Math_log10 f)))"

text \<open>The formula in exact arithmetic, for comparison.\<close>

definition exact_weighted_sum :: "factors \<Rightarrow> real" where
  "exact_weighted_sum f =
     0.40 * (if isHazardous f then 100 else 0) +
     0.25 * calculateDiameterScore (Some (diameterMeters f)) +
     0.25 * calculateDistanceScore (Some (lunarDistance f)) +
     0.10 * calculateVelocityScore (Some (velocityKmS f))"

text \<open>An alert \<open>r\<close> was made for one of the users \<open>us\<close> and one of the objects \<open>as\<close>, and
  that object passes that user's personal filter.\<close>

definition made_for :: "user list \<Rightarrow> asteroid list \<Rightarrow> alert \<Rightarrow> bool" where
  "made_for us as r =
     (\<exists>u\<in>set us. \<exists>a\<in>set as. userId r = user_id u \<and> asteroidId r = neo_reference_id a \<and>
        matchesUserThresholds a (alertSettings u))"

text \<open>The personal filter in the spec's words: diameter-max at least \<open>minDiameter\<close>, lunar
  distance at most \<open>maxDistance\<close>, score at least \<open>riskThreshold\<close>.\<close>

definition spec_personal_filter :: "asteroid \<Rightarrow> alert_settings \<Rightarrow> bool" where
  "spec_personal_filter a st =
     (js_ge (estimatedDiameterMax a) (minDiameter st) \<and>
      js_ge (maxDistance st) (missDistanceLunar a) \<and>
      js_ge (riskScore a) (riskThreshold st))"

section \<open>Sample data\<close>

definition blank_asteroid :: asteroid where
  "blank_asteroid =
     \<lparr> neo_reference_id = None, name = None, a_nasa_jpl_url = None,
       a_absolute_magnitude_h = None, riskScore = None, riskCategory = None,
       isPotentiallyHazardous = None, estimatedDiameterMin = None,
       estimatedDiameterMax = None, closeApproachDate = None, closeApproachDateFull = None,
       missDistanceKm = None, missDistanceAu = None, missDistanceLunar = None,
       relativeVelocityKmS = None, relativeVelocityKmH = None, orbitingBody = None,
       raw_data = None, expiresAt = None, lastFetchedAt = None, a_createdAt = None,
       a_updatedAt = None \<rparr>"

definition asteroid_X :: asteroid where
  "asteroid_X = blank_asteroid
     \<lparr> neo_reference_id := Some ''X'', name := Some ''X'', riskScore := Some 40,
       estimatedDiameterMax := Some 300, missDistanceLunar := Some 5,
       closeApproachDate := Some 172800000 \<rparr>"

definition asteroid_Y :: asteroid where
  "asteroid_Y = blank_asteroid
     \<lparr> neo_reference_id := Some ''Y'', name := Some ''Y'', riskScore := Some 82,
       estimatedDiameterMax := Some 300, missDistanceLunar := Some 5,
       closeApproachDate := Some 172800000 \<rparr>"

definition user_U :: user where
  "user_U = \<lparr> user_id = 1, email = ''u'', watched_asteroid_ids = [''X''],
      alertSettings = \<lparr> enabled = Some True, minDiameter = Some 100, maxDistance = Some 10,
                        riskThreshold = Some 60 \<rparr> \<rparr>"

definition user_V :: user where
  "user_V = \<lparr> user_id = 2, email = ''v'', watched_asteroid_ids = [],
      alertSettings = \<lparr> enabled = Some True, minDiameter = Some 100, maxDistance = Some 10,
                        riskThreshold = Some 50 \<rparr> \<rparr>"

definition user_W :: user where
  "user_W = \<lparr> user_id = 3, email = ''w'', watched_asteroid_ids = [''Y''],
      alertSettings = \<lparr> enabled = Some True, minDiameter = Some 100, maxDistance = Some 0,
                        riskThreshold = Some 50 \<rparr> \<rparr>"

text \<open>An environment in which no store call rejects and every clock reads \<open>t\<close>.\<close>

definition calm_env :: "int \<Rightarrow> sweep_env" where
  "calm_env t = \<lparr> asteroid_find_rejects = False, user_find_rejects = (\<lambda>i. False),
      call_envs = (\<lambda>u i. \<lparr> ce_now = t, ce_delay = 0, ce_fault = no_fault \<rparr>) \<rparr>"

text \<open>The document \<open>createCloseApproachAlert\<close> writes at the instant \<open>t\<close>.\<close>

definition alert_at :: "int \<Rightarrow> user \<Rightarrow> asteroid \<Rightarrow> alert" where
  "alert_at t u a =
     \<lparr> userId = user_id u, asteroidId = neo_reference_id a, asteroidName = name a,
       alert_type = close_approach,
       alert_severity = (if js_ge (riskScore a) (Some 75) then danger
                         else if js_ge (riskScore a) (Some 50) then warning else info),
       alert_data = \<lparr> d_riskScore = riskScore a, d_missDistanceKm = missDistanceKm a,
                      d_missDistanceLunar = missDistanceLunar a,
                      d_closeApproachDate = closeApproachDate a,
                      d_velocity = relativeVelocityKmS a,
                      d_diameter = estimatedDiameterMax a \<rparr>,
       isRead = False, eventDate = closeApproachDate a, createdAt = t \<rparr>"

definition no_alerts :: alert_state where
  "no_alerts = \<lparr> alerts = [], emitted = [] \<rparr>"

section \<open>The dedup contract\<close>








section \<open>More sample data\<close>

definition zero_settings :: alert_settings where
  "zero_settings = \<lparr> enabled = Some True, minDiameter = Some 0, maxDistance = Some 0,
                      riskThreshold = None \<rparr>"





section \<open>Asteroid.upsertFromNASA\<close>

text \<open>Truthiness of a string property, and \<open>a || b\<close> on two of them.\<close>

definition str_truthy :: "string option \<Rightarrow> bool" where
  "str_truthy v = (case v of None \<Rightarrow> False | Some t \<Rightarrow> t \<noteq> [])"

definition str_or :: "string option \<Rightarrow> string option \<Rightarrow> string option" where
  "str_or a b = (if str_truthy a then a else b)"

text \<open>The empty object of \<open>close_approach_data?.[0] || {}\<close> and of
  \<open>estimated_diameter?.meters || {}\<close>.\<close>

definition no_close_approach :: close_approach_entry where
  "no_close_approach =
     \<lparr> close_approach_date = None, close_approach_date_full = None, miss_distance = None,
       relative_velocity = None, orbiting_body = None \<rparr>"

definition no_diameter :: diameter_range where
  "no_diameter = \<lparr> estimated_diameter_min = None, estimated_diameter_max = None \<rparr>"

text \<open>\<open>new Date(text)\<close>: \<open>Date_of\<close> is the instant the constructor reads from a text, \<open>None\<close> for
  an invalid date; \<open>new Date(undefined)\<close> is invalid.\<close>

definition new_Date :: "(string \<Rightarrow> int option) \<Rightarrow> string option \<Rightarrow> int option" where
  "new_Date Date_of v = (case v of None \<Rightarrow> None | Some t \<Rightarrow> Date_of t)"

text \<open>The object \<open>asteroidData\<close> that \<open>upsertFromNASA\<close> builds. The clock is read twice in the
  source (\<open>Date.now()\<close>, \<open>new Date()\<close>); both readings are the instant \<open>now\<close>. The object
  names neither \<open>createdAt\<close> nor \<open>updatedAt\<close>.\<close>

definition asteroidData ::
  "(string \<Rightarrow> int option) \<Rightarrow> int \<Rightarrow> neo \<Rightarrow> real \<Rightarrow> risk_category \<Rightarrow> asteroid" where
  "asteroidData Date_of now nasaData rscore rcategory =
     (let closeApproach = (case close_approach_data nasaData of c # _ \<Rightarrow> c | [] \<Rightarrow> no_close_approach);
          diameter = (case estimated_diameter_meters nasaData of Some m \<Rightarrow> m | None \<Rightarrow> no_diameter);
          md = miss_distance closeApproach;
          rv = relative_velocity closeApproach
      in \<lparr> neo_reference_id = str_or (neo_neo_reference_id nasaData) (neo_id nasaData),
           name = neo_name nasaData,
           a_nasa_jpl_url = nasa_jpl_url nasaData,
           a_absolute_magnitude_h = absolute_magnitude_h nasaData,
           riskScore = Some rscore,
           riskCategory = Some rcategory,
           isPotentiallyHazardous =
             Some (case is_potentially_hazardous_asteroid nasaData of Some b \<Rightarrow> b | None \<Rightarrow> False),
           estimatedDiameterMin = estimated_diameter_min diameter,
           estimatedDiameterMax = estimated_diameter_max diameter,
           closeApproachDate =
             (if str_truthy (close_approach_date_full closeApproach)
              then new_Date Date_of (close_approach_date_full closeApproach)
              else new_Date Date_of (close_approach_date closeApproach)),
           closeApproachDateFull = close_approach_date_full closeApproach,
           missDistanceKm = Some (or0 (case md of Some m \<Rightarrow> kilometers m | None \<Rightarrow> None)),
           missDistanceAu = Some (or0 (case md of Some m \<Rightarrow> astronomical m | None \<Rightarrow> None)),
           missDistanceLunar = Some (or0 (case md of Some m \<Rightarrow> lunar m | None \<Rightarrow> None)),
           relativeVelocityKmS =
             Some (or0 (case rv of Some r \<Rightarrow> kilometers_per_second r | None \<Rightarrow> None)),
           relativeVelocityKmH =
             Some (or0 (case rv of Some r \<Rightarrow> kilometers_per_hour r | None \<Rightarrow> None)),
           orbitingBody =
             (if str_truthy (orbiting_body closeApproach) then orbiting_body closeApproach
              else Some ''Earth''),
           raw_data = Some nasaData,
           expiresAt = Some (now + day_ms),
           lastFetchedAt = Some now,
           a_createdAt = None,
           a_updatedAt = None \<rparr>)"

text \<open>
  \<open>findOneAndUpdate(filter, update, {upsert: true, new: true, runValidators: true})\<close>. The
  update is a \<open>$set\<close> of its defined paths (Mongoose drops the \<open>undefined\<close> keys of an
  update): the first document whose \<open>neo_reference_id\<close> equals the filter's is updated in
  place, and when there is none the update is inserted. With \<open>timestamps: true\<close> Mongoose
  adds \<open>updatedAt\<close> to the \<open>$set\<close> of every update and \<open>createdAt\<close> to \<open>$setOnInsert\<close>, both
  the instant \<open>now\<close> of the call. The result is the document as it is after the call, and
  the collection.
\<close>

definition set_path :: "'a option \<Rightarrow> 'a option \<Rightarrow> 'a option" where
  "set_path new old = (case new of None \<Rightarrow> old | Some v \<Rightarrow> Some v)"

definition apply_update :: "asteroid \<Rightarrow> asteroid \<Rightarrow> asteroid" where
  "apply_update upd doc =
     \<lparr> neo_reference_id = set_path (neo_reference_id upd) (neo_reference_id doc),
       name = set_path (name upd) (name doc),
       a_nasa_jpl_url = set_path (a_nasa_jpl_url upd) (a_nasa_jpl_url doc),
       a_absolute_magnitude_h = set_path (a_absolute_magnitude_h upd) (a_absolute_magnitude_h doc),
       riskScore = set_path (riskScore upd) (riskScore doc),
       riskCategory = set_path (riskCategory upd) (riskCategory doc),
       isPotentiallyHazardous = set_path (isPotentiallyHazardous upd) (isPotentiallyHazardous doc),
       estimatedDiameterMin = set_path (estimatedDiameterMin upd) (estimatedDiameterMin doc),
       estimatedDiameterMax = set_path (estimatedDiameterMax upd) (estimatedDiameterMax doc),
       closeApproachDate = set_path (closeApproachDate upd) (closeApproachDate doc),
       closeApproachDateFull = set_path (closeApproachDateFull upd) (closeApproachDateFull doc),
       missDistanceKm = set_path (missDistanceKm upd) (missDistanceKm doc),
       missDistanceAu = set_path (missDistanceAu upd) (missDistanceAu doc),
       missDistanceLunar = set_path (missDistanceLunar upd) (missDistanceLunar doc),
       relativeVelocityKmS = set_path (relativeVelocityKmS upd) (relativeVelocityKmS doc),
       relativeVelocityKmH = set_path (relativeVelocityKmH upd) (relativeVelocityKmH doc),
       orbitingBody = set_path (orbitingBody upd) (orbitingBody doc),
       raw_data = set_path (raw_data upd) (raw_data doc),
       expiresAt = set_path (expiresAt upd) (expiresAt doc),
       lastFetchedAt = set_path (lastFetchedAt upd) (lastFetchedAt doc),
       a_createdAt = set_path (a_createdAt upd) (a_createdAt doc),
       a_updatedAt = set_path (a_updatedAt upd) (a_updatedAt doc) \<rparr>"

fun findOneAndUpdate ::
  "int \<Rightarrow> string option \<Rightarrow> asteroid \<Rightarrow> asteroid list \<Rightarrow> asteroid \<times> asteroid list" where
  "findOneAndUpdate now key upd [] =
     (upd\<lparr> a_createdAt := Some now, a_updatedAt := Some now \<rparr>,
      [upd\<lparr> a_createdAt := Some now, a_updatedAt := Some now \<rparr>])"
| "findOneAndUpdate now key upd (d # ds) =
     (if neo_reference_id d = key
      then ((apply_update upd d)\<lparr> a_updatedAt := Some now \<rparr>,
            (apply_update upd d)\<lparr> a_updatedAt := Some now \<rparr> # ds)
      else case findOneAndUpdate now key upd ds of (r, ds') \<Rightarrow> (r, d # ds'))"

text \<open>
  \<open>upsertFromNASA\<close>: \<open>Inl\<close> is a rejected promise. The update validators refuse a \<open>riskScore\<close>
  outside 0..100 (the schema's \<open>min\<close> and \<open>max\<close>); \<open>rejects\<close> says that the store refuses the
  call for a reason of its own.
\<close>

definition upsertFromNASA ::
  "(string \<Rightarrow> int option) \<Rightarrow> int \<Rightarrow> bool \<Rightarrow> neo \<Rightarrow> real \<Rightarrow> risk_category \<Rightarrow> asteroid list \<Rightarrow>
   error + (asteroid \<times> asteroid list)" where
  "upsertFromNASA Date_of now rejects nasaData rscore rcategory db =
     (let data = asteroidData Date_of now nasaData rscore rcategory
      in if rscore < 0 \<or> rscore > 100 then Inl ValidationError
         else if rejects then Inl StoreError
         else Inr (findOneAndUpdate now (neo_reference_id data) data db))"

text \<open>A document without its two freshness fields; one without these and \<open>updatedAt\<close>; and
  the external ids of a collection.\<close>

definition without_ttl :: "asteroid \<Rightarrow> asteroid" where
  "without_ttl d = d\<lparr> expiresAt := None, lastFetchedAt := None \<rparr>"

definition without_stamps :: "asteroid \<Rightarrow> asteroid" where
  "without_stamps d = d\<lparr> expiresAt := None, lastFetchedAt := None, a_updatedAt := None \<rparr>"

definition ids :: "asteroid list \<Rightarrow> string option list" where
  "ids db = map neo_reference_id db"

section \<open>Sample feed objects\<close>

text \<open>A \<open>Math.log10\<close> that returns the double nearest to the logarithm.\<close>

definition log10_nearest :: "real \<Rightarrow> real" where
  "log10_nearest x = rd (log 10 x)"

definition sample_Date :: "string \<Rightarrow> int option" where
  "sample_Date t = (if t = ''2026-Jan-01 00:00'' then Some 1000 else None)"

definition neo_Y :: neo where
  "neo_Y = unknown_neo
     \<lparr> neo_id := Some ''Y'', neo_name := Some ''Y'',
       is_potentially_hazardous_asteroid := Some True,
       estimated_diameter_meters :=
         Some \<lparr> estimated_diameter_min = Some 400, estimated_diameter_max = Some 1000 \<rparr>,
       close_approach_data :=
         [\<lparr> close_approach_date = Some ''2026-01-01'',
            close_approach_date_full = Some ''2026-Jan-01 00:00'',
            miss_distance = Some \<lparr> astronomical = Some 0.00128, lunar = Some 0.5,
                                   kilometers = Some 192200 \<rparr>,
            relative_velocity = Some \<lparr> kilometers_per_second = Some 30,
                                       kilometers_per_hour = Some 108000 \<rparr>,
            orbiting_body = Some ''Earth'' \<rparr>] \<rparr>"

section \<open>scheduler.js: processAndStoreAsteroids\<close>

record stats =
  s_total :: nat
  s_processed :: nat
  s_hazardous :: nat
  s_highRisk :: nat
  s_errors :: nat

text \<open>The asteroid collection and the \<open>NEW_HAZARDOUS_ASTEROID\<close> broadcasts emitted so far.\<close>

record store_state =
  asteroid_docs :: "asteroid list"
  broadcasts :: "asteroid list"

text \<open>What a batch meets: the platform's \<open>Math.log10\<close>, the date parser, and for the record
  at position \<open>i\<close> of the batch the clock at its upsert and whether the store rejects it.\<close>

record batch_env =
  log10_of :: "real \<Rightarrow> real"
  Date_of :: "string \<Rightarrow> int option"
  clock_at :: "nat \<Rightarrow> int"
  rejects_at :: "nat \<Rightarrow> bool"

text \<open>The \<open>for\<close> loop with its \<open>try\<close>/\<open>catch\<close>; the two \<open>Inl\<close> cases are the \<open>catch\<close>.\<close>

fun process_loop ::
  "batch_env \<Rightarrow> bool \<Rightarrow> nat \<Rightarrow> neo list \<Rightarrow> stats \<Rightarrow> store_state \<Rightarrow> stats \<times> store_state" where
  "process_loop env io i [] st s = (st, s)"
| "process_loop env io i (neo # rest) st s =
     (let risk = calculateRiskScore (log10_of env) neo
      in case upsertFromNASA (Date_of env) (clock_at env i) (rejects_at env i) neo
                (real_of_int (score risk)) (category risk) (asteroid_docs s) of
           Inl err \<Rightarrow> process_loop env io (i + 1) rest (st\<lparr> s_errors := s_errors st + 1 \<rparr>) s
         | Inr (asteroid, db') \<Rightarrow>
             (let st1 = st\<lparr> s_processed := s_processed st + 1 \<rparr>;
                  st2 = (if isPotentiallyHazardous asteroid = Some True
                         then st1\<lparr> s_hazardous := s_hazardous st1 + 1 \<rparr> else st1);
                  st3 = (if category risk = high
                         then st2\<lparr> s_highRisk := s_highRisk st2 + 1 \<rparr> else st2);
                  sent = (if category risk = high \<and> io
                          then broadcasts s @ [asteroid] else broadcasts s)
              in process_loop env io (i + 1) rest st3 (s\<lparr> asteroid_docs := db', broadcasts := sent \<rparr>)))"

definition processAndStoreAsteroids ::
  "batch_env \<Rightarrow> bool \<Rightarrow> neo list \<Rightarrow> store_state \<Rightarrow> stats \<times> store_state" where
  "processAndStoreAsteroids env io neoData s =
     process_loop env io 0 neoData
       \<lparr> s_total = length neoData, s_processed = 0, s_hazardous = 0, s_highRisk = 0,
         s_errors = 0 \<rparr> s"

text \<open>The external id under which a feed object is stored.\<close>

definition external_id :: "neo \<Rightarrow> string option" where
  "external_id n = str_or (neo_neo_reference_id n) (neo_id n)"

text \<open>An object of the feed with lunar distance \<open>"6.88"\<close> and velocity \<open>"10.5"\<close> km/s, as
  \<open>parseFloat\<close> reads them.\<close>

definition lunar_Q :: real where
  "lunar_Q = rd 6.88"

definition velocity_Q :: real where
  "velocity_Q = rd 10.5"

definition neo_Q :: neo where
  "neo_Q = unknown_neo
     \<lparr> neo_id := Some ''Q'', neo_name := Some ''Q'',
       close_approach_data :=
         [\<lparr> close_approach_date = Some ''2026-01-01'',
            close_approach_date_full = None,
            miss_distance = Some \<lparr> astronomical = None, lunar = Some lunar_Q,
                                   kilometers = None \<rparr>,
            relative_velocity = Some \<lparr> kilometers_per_second = Some velocity_Q,
                                       kilometers_per_hour = None \<rparr>,
            orbiting_body = Some ''Earth'' \<rparr>] \<rparr>"


definition second_rejected :: batch_env where
  "second_rejected = \<lparr> log10_of = log10_nearest, Date_of = sample_Date,
                        clock_at = (\<lambda>i. 1000 + int i),
                        rejects_at = (\<lambda>i. i = 1) \<rparr>"

text \<open>The document of \<open>neo_Y\<close>, scored 100 and \<open>high\<close>, as the store holds it when it was
  inserted at \<open>t0\<close> and last upserted at \<open>t\<close>.\<close>

definition stored_Y :: "int \<Rightarrow> int \<Rightarrow> asteroid" where
  "stored_Y t0 t =
     (asteroidData sample_Date t neo_Y 100 high)\<lparr> a_createdAt := Some t0, a_updatedAt := Some t \<rparr>"

definition empty_store :: store_state where
  "empty_store = \<lparr> asteroid_docs = [], broadcasts = [] \<rparr>"

section \<open>nasaService.js\<close>

text \<open>The body of an answer of the feed: the count and the mapping from calendar date to the
  objects of that day, in the order of its keys.\<close>

record feed_body =
  element_count :: "nat option"
  body_near_earth_objects :: "(string \<times> neo list) list option"

text \<open>
  What a request to the feed comes to: \<open>fetch\<close> rejects (with its message), the response is
  not \<open>ok\<close> (with its status and status text as the message prints them), \<open>response.json()\<close>
  rejects, or a body arrives.
\<close>

datatype fetch_outcome =
    fetch_rejects string
  | http_error string
  | json_rejects string
  | ok_body feed_body

record feed_result =
  success :: bool
  feed_error :: "string option"
  r_element_count :: "nat option"
  near_earth_objects :: "(string \<times> neo list) list option"

text \<open>What the feed client meets: \<open>formatDate\<close> (the calendar day of an instant, as
  \<open>toISOString\<close> prints it) and the outcome of the request for a range of days.\<close>

record feed_env =
  formatDate :: "int \<Rightarrow> string"
  request :: "string \<Rightarrow> string \<Rightarrow> fetch_outcome"

text \<open>The body of the \<open>try\<close> of \<open>fetchNeoFeed\<close>: \<open>Inl\<close> is a thrown error with its message.\<close>

definition fetchNeoFeed_try :: "feed_env \<Rightarrow> int \<Rightarrow> int option \<Rightarrow> string + feed_result" where
  "fetchNeoFeed_try env startDate endDate =
     (let endDate' = (case endDate of None \<Rightarrow> startDate | Some e \<Rightarrow> e);
          start = formatDate env startDate;
          end_date = formatDate env endDate'
      in case request env start end_date of
           fetch_rejects msg \<Rightarrow> Inl msg
         | http_error status_line \<Rightarrow> Inl (''NASA API error: '' @ status_line)
         | json_rejects msg \<Rightarrow> Inl msg
         | ok_body data \<Rightarrow>
             Inr \<lparr> success = True, feed_error = None, r_element_count = element_count data,
                   near_earth_objects = body_near_earth_objects data \<rparr>)"

definition fetchNeoFeed :: "feed_env \<Rightarrow> int \<Rightarrow> int option \<Rightarrow> feed_result" where
  "fetchNeoFeed env startDate endDate =
     (case fetchNeoFeed_try env startDate endDate of
        Inl msg \<Rightarrow> \<lparr> success = False, feed_error = Some msg, r_element_count = None,
                     near_earth_objects = Some [] \<rparr>
      | Inr r \<Rightarrow> r)"

text \<open>
  \<open>fetchTodayNeos\<close> and \<open>fetchWeekNeos\<close>. A body that arrived without \<open>near_earth_objects\<close>
  makes the property read (\<open>Object.keys\<close> for the week) throw a \<open>TypeError\<close>, outside any
  \<open>try\<close> of the feed client: \<open>Inl\<close>.
\<close>

definition fetchTodayNeos :: "feed_env \<Rightarrow> int \<Rightarrow> string + neo list" where
  "fetchTodayNeos env today =
     (let result = fetchNeoFeed env today (Some today)
      in if \<not> success result then Inr []
         else let dateKey = formatDate env today
              in case near_earth_objects result of
                   None \<Rightarrow> Inl ''TypeError''
                 | Some days \<Rightarrow>
                     (case map_of days dateKey of
                        Some neos \<Rightarrow> Inr neos
                      | None \<Rightarrow> Inr []))"

definition fetchWeekNeos :: "feed_env \<Rightarrow> int \<Rightarrow> string + neo list" where
  "fetchWeekNeos env today =
     (let nextWeek = today + 6 * day_ms;
          result = fetchNeoFeed env today (Some nextWeek)
      in if \<not> success result then Inr []
         else case near_earth_objects result of
                None \<Rightarrow> Inl ''TypeError''
              | Some days \<Rightarrow> Inr (concat (map snd days)))"

section \<open>scheduler.js: the pipelines\<close>

text \<open>The broadcasts \<open>DAILY_UPDATE\<close> and \<open>WEEKLY_UPDATE\<close>; the state the pipelines work on.\<close>

datatype update_event = DAILY_UPDATE stats | WEEKLY_UPDATE stats

record world =
  store :: store_state
  alert_store :: alert_state
  updates :: "update_event list"

text \<open>
  \<open>runDailyFetch\<close> and \<open>runWeeklyFetch\<close>, with the clock at the fetch (\<open>today\<close>) and at the sweep
  (\<open>now\<close>). The \<open>catch\<close> logs the error and returns; it is reached when the fetcher throws,
  before anything was written.
\<close>

definition runDailyFetch ::
  "feed_env \<Rightarrow> batch_env \<Rightarrow> sweep_env \<Rightarrow> bool \<Rightarrow> int \<Rightarrow> int \<Rightarrow> user list \<Rightarrow> world \<Rightarrow> world" where
  "runDailyFetch fe be se io today now users w =
     (case fetchTodayNeos fe today of
        Inl err \<Rightarrow> w
      | Inr todayNeos \<Rightarrow>
          if length todayNeos = 0 then w
          else case processAndStoreAsteroids be io todayNeos (store w) of
            (st, store') \<Rightarrow>
              (case checkAndDispatchAlerts se io now 1 (asteroid_docs store') users
                      (alert_store w) of
                 (res, alerts') \<Rightarrow>
                   w\<lparr> store := store',
                      updates := (if io then updates w @ [DAILY_UPDATE st] else updates w),
                      alert_store := alerts' \<rparr>))"

definition runWeeklyFetch ::
  "feed_env \<Rightarrow> batch_env \<Rightarrow> sweep_env \<Rightarrow> bool \<Rightarrow> int \<Rightarrow> int \<Rightarrow> user list \<Rightarrow> world \<Rightarrow> world" where
  "runWeeklyFetch fe be se io today now users w =
     (case fetchWeekNeos fe today of
        Inl err \<Rightarrow> w
      | Inr weekNeos \<Rightarrow>
          if length weekNeos = 0 then w
          else case processAndStoreAsteroids be io weekNeos (store w) of
            (st, store') \<Rightarrow>
              (case checkAndDispatchAlerts se io now 7 (asteroid_docs store') users
                      (alert_store w) of
                 (res, alerts') \<Rightarrow>
                   w\<lparr> store := store',
                      updates := (if io then updates w @ [WEEKLY_UPDATE st] else updates w),
                      alert_store := alerts' \<rparr>))"

text \<open>A failure of the feed source: every outcome but a body.\<close>

definition is_failure :: "fetch_outcome \<Rightarrow> bool" where
  "is_failure out = (case out of ok_body data \<Rightarrow> False | _ \<Rightarrow> True)"

section \<open>Sample feeds\<close>

definition feed_down :: feed_env where
  "feed_down = \<lparr> formatDate = (\<lambda>t. ''2026-01-01''),
                  request = (\<lambda>start end_date. http_error ''503 Service Unavailable'') \<rparr>"

definition feed_empty :: feed_env where
  "feed_empty = \<lparr> formatDate = (\<lambda>t. ''2026-01-01''),
                   request = (\<lambda>start end_date. ok_body \<lparr> element_count = Some 0,
                                                      body_near_earth_objects = Some [] \<rparr>) \<rparr>"

definition empty_world :: world where
  "empty_world = \<lparr> store = empty_store, alert_store = no_alerts, updates = [] \<rparr>"

section \<open>The risk scorer\<close>

subsection \<open>Rounding to the nearest double\<close>

lemma rne_near: "\<bar>x - of_int m\<bar> < 1 / 2 \<Longrightarrow> rne x = m"
proof -
  assume h: "\<bar>x - of_int m\<bar> < 1 / 2"
  show ?thesis
  proof (cases "of_int m \<le> x")
    case True
    with h have f: "\<lfloor>x\<rfloor> = m" by (intro floor_unique) auto
    with h True show ?thesis by (simp add: rne_def Let_def)
  next
    case False
    with h have f: "\<lfloor>x\<rfloor> = m - 1" by (intro floor_unique) auto
    with h False show ?thesis by (auto simp: rne_def Let_def)
  qed
qed

lemma rne_of_int [simp]: "rne (of_int m) = m"
  by (rule rne_near) simp

lemma floor_log2:
  assumes "2 powr of_int e \<le> x" "x < 2 powr of_int (e + 1)"
  shows "\<lfloor>log 2 x\<rfloor> = e"
proof -
  have p: "0 < x" using assms(1) powr_gt_zero [of 2 "of_int e"] by linarith
  have "of_int e \<le> log 2 x" using assms(1) p by (simp add: le_log_iff)
  moreover have "log 2 x < of_int e + 1" using assms(2) p by (simp add: log_less_iff)
  ultimately show ?thesis by (intro floor_unique) auto
qed

lemma rd_near:
  assumes "2 powr of_int e \<le> \<bar>x\<bar>" "\<bar>x\<bar> < 2 powr of_int (e + 1)" "- 1022 \<le> e"
    and "\<bar>x / 2 powr of_int (e - 52) - of_int m\<bar> < 1 / 2"
  shows "rd x = of_int m * 2 powr of_int (e - 52)"
proof -
  have nz: "x \<noteq> 0" using assms(1) powr_gt_zero [of 2 "of_int e"] by auto
  have "\<lfloor>log 2 \<bar>x\<bar>\<rfloor> = e" using assms(1,2) by (rule floor_log2)
  with assms(3) have u: "ulp_exp x = e - 52" by (simp add: ulp_exp_def)
  from assms(4) have "rne (x / 2 powr of_int (e - 52)) = m" by (rule rne_near)
  with nz u show ?thesis by (simp add: rd_def)
qed

lemma rd_exact:
  assumes x: "x = of_int m * 2 powr of_int k" and m: "\<bar>m\<bar> < 2 ^ 53" and k: "- 1074 \<le> k"
  shows "rd x = x"
proof (cases "x = 0")
  case True
  then show ?thesis by (simp add: rd_def)
next
  case False
  with x have mz: "m \<noteq> 0" by auto
  define q where "q = ulp_exp x"
  have ax: "\<bar>x\<bar> = of_int \<bar>m\<bar> * 2 powr of_int k"
    using x by (simp add: abs_mult)
  have "of_int \<bar>m\<bar> < (2::real) ^ 53" using m by (metis of_int_less_iff of_int_numeral of_int_power)
  then have "\<bar>x\<bar> < 2 ^ 53 * 2 powr of_int k"
    using ax by simp
  also have "\<dots> = 2 powr (53 + of_int k)"
    by (simp add: powr_add)
  finally have "log 2 \<bar>x\<bar> < 53 + of_int k"
    using False by (simp add: log_less_iff)
  then have "\<lfloor>log 2 \<bar>x\<bar>\<rfloor> < 53 + k"
    by (simp add: floor_less_iff)
  with k have qk: "q \<le> k" by (simp add: q_def ulp_exp_def)
  define n where "n = nat (k - q)"
  have kq: "of_int k = of_int q + real n" using qk by (simp add: n_def)
  have "x / 2 powr of_int q = of_int m * 2 powr real n"
    using x by (simp add: kq powr_add)
  also have "\<dots> = of_int (m * 2 ^ n)"
    by (simp add: powr_realpow)
  finally have i: "x / 2 powr of_int q = of_int (m * 2 ^ n)" .
  have "rne (x / 2 powr of_int q) = m * 2 ^ n"
    by (simp only: i rne_of_int)
  then have "rd x = of_int (m * 2 ^ n) * 2 powr of_int q"
    using False by (simp only: rd_def q_def [symmetric] if_False)
  also have "\<dots> = x"
    using i by (simp add: field_simps)
  finally show ?thesis .
qed

lemma rd_of_int: "\<bar>n\<bar> < 2 ^ 53 \<Longrightarrow> rd (of_int n) = of_int n"
  using rd_exact [of "of_int n" n 0] by simp

lemma rd_numeral: "(numeral w :: int) < 2 ^ 53 \<Longrightarrow> rd (numeral w) = numeral w"
  using rd_of_int [of "numeral w"] by simp

lemma rd_0: "rd 0 = 0"
  by (simp add: rd_def)

lemma rd_quarter: "rd (1 / 4) = 1 / 4"
  using rd_exact [of "1 / 4" 1 "- 2"] by (simp add: powr_neg_numeral)

lemma rd_half: "rd (1 / 2) = 1 / 2"
  using rd_exact [of "1 / 2" 1 "- 1"] by simp

lemma rd_040: "rd 0.40 = 7205759403792794 / 2 ^ 54"
proof -
  have "rd 0.40 = of_int 7205759403792794 * 2 powr of_int (- 2 - 52)"
    by (rule rd_near) (simp_all add: powr_neg_numeral)
  then show ?thesis by (simp add: powr_neg_numeral)
qed

lemma rd_025: "rd 0.25 = 1 / 4"
  using rd_quarter by simp

lemma rd_010: "rd 0.10 = 7205759403792794 / 2 ^ 56"
proof -
  have "rd 0.10 = of_int 7205759403792794 * 2 powr of_int (- 4 - 52)"
    by (rule rd_near) (simp_all add: powr_neg_numeral)
  then show ?thesis by (simp add: powr_neg_numeral)
qed

lemma mul_100_040: "fl_mul 100 (rd 0.40) = 40"
proof -
  have "rd (100 * (7205759403792794 / 2 ^ 54)) = of_int 5629499534213120 * 2 powr of_int (5 - 52)"
    by (rule rd_near) (simp_all add: powr_neg_numeral)
  then show ?thesis unfolding fl_mul_def rd_040 by (simp add: powr_neg_numeral)
qed

lemma mul_100_025: "fl_mul 100 (rd 0.25) = 25"
  unfolding fl_mul_def rd_025 by (simp add: rd_numeral)

lemma mul_100_010: "fl_mul 100 (rd 0.10) = 10"
proof -
  have "rd (100 * (7205759403792794 / 2 ^ 56)) = of_int 5629499534213120 * 2 powr of_int (3 - 52)"
    by (rule rd_near) (simp_all add: powr_neg_numeral)
  then show ?thesis unfolding fl_mul_def rd_010 by (simp add: powr_neg_numeral)
qed

lemma mul_0: "fl_mul 0 c = 0"
  by (simp add: fl_mul_def rd_0)

lemma add_0_0: "fl_add 0 0 = 0"
  by (simp add: fl_add_def rd_0)

lemma weights_norm:
  "rd (2 / 5) = 7205759403792794 / 2 ^ 54"
  "rd (1 / 10) = 7205759403792794 / 2 ^ 56"
  "fl_mul 100 (rd (2 / 5)) = 40"
  "fl_mul 100 (rd (1 / 4)) = 25"
  "fl_mul 100 (rd (1 / 10)) = 10"
  using rd_040 rd_010 mul_100_040 mul_100_025 mul_100_010 by simp_all

lemma rne_mono: "x \<le> y \<Longrightarrow> rne x \<le> rne y"
proof -
  assume h: "x \<le> y"
  then have f: "\<lfloor>x\<rfloor> \<le> \<lfloor>y\<rfloor>" by (rule floor_mono)
  have ux: "rne x \<le> \<lfloor>x\<rfloor> + 1" by (simp add: rne_def Let_def)
  have ly: "\<lfloor>y\<rfloor> \<le> rne y" by (simp add: rne_def Let_def)
  show ?thesis
  proof (cases "\<lfloor>x\<rfloor> = \<lfloor>y\<rfloor>")
    case True
    with h show ?thesis by (auto simp: rne_def Let_def)
  next
    case False
    with f have "\<lfloor>x\<rfloor> + 1 \<le> \<lfloor>y\<rfloor>" by simp
    with ux ly show ?thesis by linarith
  qed
qed

lemma rne_minus: "rne (- x) = - rne x"
proof (cases "x = of_int \<lfloor>x\<rfloor>")
  case True
  then obtain m where "x = of_int m" ..
  then have "rne (- x) = rne (of_int (- m))" by simp
  also have "\<dots> = - m" by (rule rne_of_int)
  finally show ?thesis using \<open>x = of_int m\<close> by simp
next
  case False
  then have lt: "of_int \<lfloor>x\<rfloor> < x" using of_int_floor_le [of x] by linarith
  have "\<lfloor>- x\<rfloor> = - \<lfloor>x\<rfloor> - 1"
  proof (rule floor_unique)
    show "of_int (- \<lfloor>x\<rfloor> - 1) \<le> - x" using floor_correct [of x] by simp linarith
    show "- x < of_int (- \<lfloor>x\<rfloor> - 1) + 1" using lt by simp
  qed
  then show ?thesis
    by (auto simp: rne_def Let_def)
qed

lemma ulp_exp_minus: "ulp_exp (- x) = ulp_exp x"
  by (simp add: ulp_exp_def)

lemma rd_minus: "rd (- x) = - rd x"
  by (simp add: rd_def ulp_exp_minus rne_minus)

lemma rd_nonneg: "0 \<le> x \<Longrightarrow> 0 \<le> rd x"
proof -
  assume "0 \<le> x"
  then have "0 \<le> x / 2 powr of_int (ulp_exp x)" by simp
  then have "rne 0 \<le> rne (x / 2 powr of_int (ulp_exp x))" by (rule rne_mono)
  moreover have "rne 0 = 0" using rne_of_int [of 0] by simp
  ultimately show ?thesis by (simp add: rd_def)
qed

lemma rd_mono_pos:
  assumes "0 < x" "x \<le> y"
  shows "rd x \<le> rd y"
proof -
  from assms have y: "0 < y" by simp
  define kx where "kx = max \<lfloor>log 2 x\<rfloor> (- 1022)"
  define ky where "ky = max \<lfloor>log 2 y\<rfloor> (- 1022)"
  have ux: "ulp_exp x = kx - 52" using assms(1) by (simp add: ulp_exp_def kx_def)
  have uy: "ulp_exp y = ky - 52" using y by (simp add: ulp_exp_def ky_def)
  have rx: "rd x = of_int (rne (x / 2 powr of_int (kx - 52))) * 2 powr of_int (kx - 52)"
    using assms(1) by (simp add: rd_def ux)
  have ry: "rd y = of_int (rne (y / 2 powr of_int (ky - 52))) * 2 powr of_int (ky - 52)"
    using y by (simp add: rd_def uy)
  have "log 2 x \<le> log 2 y" using assms by simp
  then have "\<lfloor>log 2 x\<rfloor> \<le> \<lfloor>log 2 y\<rfloor>" by (rule floor_mono)
  then have k: "kx \<le> ky" by (simp add: kx_def ky_def)
  show ?thesis
  proof (cases "kx = ky")
    case True
    from assms(2) have "x / 2 powr of_int (ky - 52) \<le> y / 2 powr of_int (ky - 52)"
      by (simp add: divide_right_mono)
    then have "rne (x / 2 powr of_int (ky - 52)) \<le> rne (y / 2 powr of_int (ky - 52))"
      by (rule rne_mono)
    then have "real_of_int (rne (x / 2 powr of_int (ky - 52))) * 2 powr of_int (ky - 52) \<le>
        real_of_int (rne (y / 2 powr of_int (ky - 52))) * 2 powr of_int (ky - 52)"
      by (simp add: mult_right_mono)
    with rx ry True show ?thesis by simp
  next
    case False
    with k have lt: "kx < ky" by simp
    then have kyf: "ky = \<lfloor>log 2 y\<rfloor>" by (auto simp: kx_def ky_def max_def split: if_splits)
    have "of_int ky \<le> log 2 y" unfolding kyf by simp
    then have ly: "2 powr of_int ky \<le> y" using y by (simp add: le_log_iff)
    have "log 2 x < of_int \<lfloor>log 2 x\<rfloor> + 1" by linarith
    also have "\<dots> \<le> of_int kx + 1" by (simp add: kx_def)
    finally have "log 2 x < of_int (kx + 1)" by simp
    then have hx: "x < 2 powr of_int (kx + 1)" using assms(1) by (simp add: log_less_iff)
    have e53: "(2::real) powr of_int (kx + 1) = 2 ^ 53 * 2 powr of_int (kx - 52)"
    proof -
      have "(2::real) ^ 53 = 2 powr 53" by simp
      then have "(2::real) ^ 53 * 2 powr of_int (kx - 52) = 2 powr (53 + of_int (kx - 52))"
        by (simp only: powr_add)
      then show ?thesis by (simp add: add.commute)
    qed
    have e52: "(2::real) powr of_int ky = 2 ^ 52 * 2 powr of_int (ky - 52)"
    proof -
      have "(2::real) ^ 52 = 2 powr 52" by simp
      then have "(2::real) ^ 52 * 2 powr of_int (ky - 52) = 2 powr (52 + of_int (ky - 52))"
        by (simp only: powr_add)
      then show ?thesis by simp
    qed
    have "x / 2 powr of_int (kx - 52) \<le> 2 ^ 53"
      using hx e53 by (simp add: divide_le_eq)
    then have "x / 2 powr of_int (kx - 52) \<le> of_int (2 ^ 53)" by simp
    then have "rne (x / 2 powr of_int (kx - 52)) \<le> rne (of_int (2 ^ 53))" by (rule rne_mono)
    then have "rne (x / 2 powr of_int (kx - 52)) \<le> 2 ^ 53" by (simp only: rne_of_int)
    then have "(of_int (rne (x / 2 powr of_int (kx - 52))) :: real) \<le> of_int (2 ^ 53)"
      by (simp only: of_int_le_iff)
    then have "real_of_int (rne (x / 2 powr of_int (kx - 52))) * 2 powr of_int (kx - 52) \<le>
        2 ^ 53 * 2 powr of_int (kx - 52)"
      by (simp add: mult_right_mono)
    with rx e53 have a: "rd x \<le> 2 powr of_int (kx + 1)" by simp
    have "2 powr of_int (kx + 1) \<le> (2::real) powr of_int ky"
      using lt by simp
    with a have b: "rd x \<le> 2 powr of_int ky" by linarith
    have "2 ^ 52 \<le> y / 2 powr of_int (ky - 52)"
      using ly e52 by (simp add: le_divide_eq)
    then have "of_int (2 ^ 52) \<le> y / 2 powr of_int (ky - 52)" by simp
    then have "rne (of_int (2 ^ 52)) \<le> rne (y / 2 powr of_int (ky - 52))" by (rule rne_mono)
    then have "2 ^ 52 \<le> rne (y / 2 powr of_int (ky - 52))" by (simp only: rne_of_int)
    then have "(of_int (2 ^ 52) :: real) \<le> of_int (rne (y / 2 powr of_int (ky - 52)))"
      by (simp only: of_int_le_iff)
    then have "2 ^ 52 * 2 powr of_int (ky - 52) \<le>
        real_of_int (rne (y / 2 powr of_int (ky - 52))) * 2 powr of_int (ky - 52)"
      by (simp add: mult_right_mono)
    with ry e52 have "2 powr of_int ky \<le> rd y" by simp
    with b show ?thesis by linarith
  qed
qed

lemma rd_mono: "x \<le> y \<Longrightarrow> rd x \<le> rd y"
proof -
  assume h: "x \<le> y"
  show ?thesis
  proof (cases "0 < x")
    case True
    then show ?thesis using h by (rule rd_mono_pos)
  next
    case False
    then have nx: "0 \<le> - x" by simp
    have x0: "rd x \<le> 0" using rd_nonneg [OF nx] by (simp add: rd_minus)
    show ?thesis
    proof (cases "0 \<le> y")
      case True
      then have "0 \<le> rd y" by (rule rd_nonneg)
      with x0 show ?thesis by linarith
    next
      case False
      then have "0 < - y" "- y \<le> - x" using h by simp_all
      then have "rd (- y) \<le> rd (- x)" by (rule rd_mono_pos)
      then show ?thesis by (simp add: rd_minus)
    qed
  qed
qed

subsection \<open>The score of an object\<close>

lemma log10_1000: "log 10 (1000::real) = 3"
proof -
  have "log 10 ((10::real) ^ 3) = 3" by (simp only: log_pow_cancel)
  then show ?thesis by simp
qed

lemma Math_round_round: "Math_round x = round x"
  by (simp add: Math_round_def round_def)

lemma calculateDiameterScore_dbl_or0:
  "calculateDiameterScore_dbl lg (Some (or0 v)) = calculateDiameterScore_dbl lg v"
  by (cases v) (simp_all add: calculateDiameterScore_dbl_def or0_def truthy_def)

lemma calculateDistanceScore_dbl_or0:
  "calculateDistanceScore_dbl (Some (or0 v)) = calculateDistanceScore_dbl v"
  by (cases v) (simp_all add: calculateDistanceScore_dbl_def or0_def truthy_def)

lemma calculateVelocityScore_dbl_or0:
  "calculateVelocityScore_dbl (Some (or0 v)) = calculateVelocityScore_dbl v"
  by (cases v) (simp_all add: calculateVelocityScore_dbl_def or0_def truthy_def)

lemma normalize_hazard: "isHazardous (spec_normalize a) = risk_isHazardous a"
  by (simp add: spec_normalize_def risk_isHazardous_def)

lemma normalize_diameter: "diameterMeters (spec_normalize a) = or0 (risk_diameter a)"
  by (simp add: spec_normalize_def risk_diameter_def Let_def or0_def truthy_def
      split: option.splits)

lemma normalize_lunar: "lunarDistance (spec_normalize a) = or0 (risk_lunarDistance a)"
  by (simp add: spec_normalize_def risk_lunarDistance_def Let_def or0_def truthy_def
      split: option.splits list.splits)

lemma normalize_velocity: "velocityKmS (spec_normalize a) = or0 (risk_velocity a)"
  by (simp add: spec_normalize_def risk_velocity_def Let_def or0_def truthy_def
      split: option.splits list.splits)

lemma factors_normalize: "factors (calculateRiskScore lg a) = spec_normalize a"
proof -
  have "factors (calculateRiskScore lg a) =
      \<lparr> isHazardous = risk_isHazardous a, diameterMeters = or0 (risk_diameter a),
        lunarDistance = or0 (risk_lunarDistance a), velocityKmS = or0 (risk_velocity a) \<rparr>"
    by (simp add: calculateRiskScore_def Let_def)
  also have "\<dots> = spec_normalize a"
    by (simp add: normalize_hazard [symmetric] normalize_diameter [symmetric]
        normalize_lunar [symmetric] normalize_velocity [symmetric])
  finally show ?thesis .
qed

lemma score_of_factors:
  "score (calculateRiskScore lg a) = spec_score lg (factors (calculateRiskScore lg a))"
  by (simp add: calculateRiskScore_def spec_score_def spec_weighted_sum_def Let_def
      Math_round_round calculateDiameterScore_dbl_or0 calculateDistanceScore_dbl_or0
      calculateVelocityScore_dbl_or0)

lemma score_formula: "score (calculateRiskScore lg a) = spec_score lg (spec_normalize a)"
  using score_of_factors [of lg a] by (simp add: factors_normalize)

lemma category_of_score:
  "category (calculateRiskScore lg a) = getRiskCategory (score (calculateRiskScore lg a))"
  by (simp add: calculateRiskScore_def Let_def)

lemma score_range:
  "1 \<le> score (calculateRiskScore lg n) \<and> score (calculateRiskScore lg n) \<le> 100"
  by (simp add: calculateRiskScore_def Let_def)

lemma zero_factors_score:
  assumes "\<not> isHazardous f" "diameterMeters f = 0" "lunarDistance f = 0" "velocityKmS f = 0"
  shows "spec_score lg f = 25"
proof -
  have "spec_weighted_sum lg f = fl_add (fl_add (fl_add 0 0) 25) 0"
    using assms
    by (simp add: spec_weighted_sum_def calculateDiameterScore_dbl_def
        calculateDistanceScore_dbl_def calculateVelocityScore_dbl_def truthy_def
        mul_0 weights_norm(3-5))
  also have "\<dots> = 25"
    by (simp add: fl_add_def rd_0 rd_numeral)
  finally show ?thesis by (simp add: spec_score_def)
qed

lemma unknown_neo_normalize:
  "spec_normalize unknown_neo =
     \<lparr> isHazardous = False, diameterMeters = 0, lunarDistance = 0, velocityKmS = 0 \<rparr>"
  by (simp add: spec_normalize_def unknown_neo_def truthy_def)

lemma unknown_neo_risk:
  "score (calculateRiskScore lg unknown_neo) = 25 \<and>
   category (calculateRiskScore lg unknown_neo) = minimal"
  by (simp add: category_of_score score_formula unknown_neo_normalize zero_factors_score
      getRiskCategory_def)

lemma neo_Y_normalize:
  "spec_normalize neo_Y =
     \<lparr> isHazardous = True, diameterMeters = 1000, lunarDistance = 1 / 2, velocityKmS = 30 \<rparr>"
  by (simp add: spec_normalize_def neo_Y_def unknown_neo_def truthy_def or0_def)

lemma div_self_dbl: "x \<noteq> 0 \<Longrightarrow> fl_div x x = 1"
  using rd_of_int [of 1] by (simp add: fl_div_def)

lemma neo_Y_score:
  assumes "lg 1000 \<noteq> 0"
  shows "spec_score lg (spec_normalize neo_Y) = 100"
proof -
  have m: "fl_mul 1 100 = 100" by (simp add: fl_mul_def rd_numeral)
  have d: "calculateDiameterScore_dbl lg (Some 1000) = 100"
    using assms by (simp add: calculateDiameterScore_dbl_def truthy_def MAX_DIAMETER_def
        div_self_dbl m)
  have l: "calculateDistanceScore_dbl (Some (1 / 2)) = 100"
    by (simp add: calculateDistanceScore_dbl_def truthy_def MIN_SAFE_DISTANCE_def)
  have v: "calculateVelocityScore_dbl (Some 30) = 100"
    by (simp add: calculateVelocityScore_dbl_def truthy_def MAX_VELOCITY_def div_self_dbl m)
  have "spec_weighted_sum lg (spec_normalize neo_Y) = fl_add (fl_add (fl_add 40 25) 25) 10"
    by (simp add: spec_weighted_sum_def neo_Y_normalize d l v weights_norm(3-5))
  also have "\<dots> = 100"
    by (simp add: fl_add_def rd_numeral)
  finally show ?thesis by (simp add: spec_score_def)
qed

lemma velocity_Q: "velocity_Q = 21 / 2"
  unfolding velocity_Q_def using rd_exact [of "21 / 2" 21 "- 1"] by simp

lemma lunar_Q: "lunar_Q = 7746191359077253 / 2 ^ 50"
proof -
  have "rd 6.88 = of_int 7746191359077253 * 2 powr of_int (2 - 52)"
    by (rule rd_near) (simp_all add: powr_neg_numeral)
  then show ?thesis by (simp add: lunar_Q_def powr_neg_numeral)
qed

lemma dist_mid:
  "1 < d \<Longrightarrow> d < 50 \<Longrightarrow>
   calculateDistanceScore_dbl (Some d) =
     min 100 (max 0 (fl_mul (fl_div (fl_sub 50 d) (fl_sub 50 1)) 100))"
  by (simp add: calculateDistanceScore_dbl_def truthy_def MIN_SAFE_DISTANCE_def
      MAX_CONCERNING_DISTANCE_def Let_def)

lemma vel_mid:
  "0 < v \<Longrightarrow>
   calculateVelocityScore_dbl (Some v) = min 100 (max 0 (fl_mul (fl_div v 30) 100))"
  by (simp add: calculateVelocityScore_dbl_def truthy_def MAX_VELOCITY_def Let_def)

lemma dist_Q: "calculateDistanceScore_dbl (Some lunar_Q) = 6192449487634431 / 2 ^ 46"
proof -
  note a = lunar_Q
  have k: "fl_sub 50 1 = 49" by (simp add: fl_sub_def rd_numeral)
  have b: "fl_sub 50 (7746191359077253 / 2 ^ 50) = 6068600497881743 / 2 ^ 47"
  proof -
    have "rd (50 - 7746191359077253 / 2 ^ 50) = of_int 6068600497881743 * 2 powr of_int (5 - 52)"
      by (rule rd_near) (simp_all add: powr_neg_numeral)
    then show ?thesis by (simp add: fl_sub_def powr_neg_numeral)
  qed
  have c: "fl_div (6068600497881743 / 2 ^ 47) 49 = 7926335344172072 / 2 ^ 53"
  proof -
    have "rd (6068600497881743 / 2 ^ 47 / 49) = of_int 7926335344172072 * 2 powr of_int (- 1 - 52)"
      by (rule rd_near) (simp_all add: powr_neg_numeral)
    then show ?thesis by (simp add: fl_div_def powr_neg_numeral)
  qed
  have d: "fl_mul (7926335344172072 / 2 ^ 53) 100 = 6192449487634431 / 2 ^ 46"
  proof -
    have "rd (7926335344172072 / 2 ^ 53 * 100) = of_int 6192449487634431 * 2 powr of_int (6 - 52)"
      by (rule rd_near) (simp_all add: powr_neg_numeral)
    then show ?thesis by (simp add: fl_mul_def powr_neg_numeral)
  qed
  have r: "1 < lunar_Q \<and> lunar_Q < 50" by (simp add: a)
  have "fl_mul (fl_div (fl_sub 50 lunar_Q) (fl_sub 50 1)) 100 = 6192449487634431 / 2 ^ 46"
    by (simp only: a k b c d)
  with r show ?thesis by (simp add: dist_mid)
qed

lemma vel_Q: "calculateVelocityScore_dbl (Some velocity_Q) = 35"
proof -
  have b: "fl_div (21 / 2) 30 = 6305039478318694 / 2 ^ 54"
  proof -
    have "rd (21 / 2 / 30) = of_int 6305039478318694 * 2 powr of_int (- 2 - 52)"
      by (rule rd_near) (simp_all add: powr_neg_numeral)
    then show ?thesis by (simp add: fl_div_def powr_neg_numeral)
  qed
  have c: "fl_mul (6305039478318694 / 2 ^ 54) 100 = 4925812092436480 / 2 ^ 47"
  proof -
    have "rd (6305039478318694 / 2 ^ 54 * 100) = of_int 4925812092436480 * 2 powr of_int (5 - 52)"
      by (rule rd_near) (simp_all add: powr_neg_numeral)
    then show ?thesis by (simp add: fl_mul_def powr_neg_numeral)
  qed
  have p: "0 < velocity_Q" by (simp add: velocity_Q)
  have "fl_mul (fl_div velocity_Q 30) 100 = 4925812092436480 / 2 ^ 47"
    by (simp only: velocity_Q b c)
  with p show ?thesis by (simp add: vel_mid)
qed

lemma sum_Q:
  "fl_add (fl_add (fl_add (fl_mul 0 (rd 0.40)) (fl_mul 0 (rd 0.25)))
                  (fl_mul (6192449487634431 / 2 ^ 46) (rd 0.25)))
          (fl_mul 35 (rd 0.10)) = 7177611906121727 / 2 ^ 48"
proof -
  have p3: "fl_mul (6192449487634431 / 2 ^ 46) (1 / 4) = 6192449487634431 / 2 ^ 48"
  proof -
    have "rd (6192449487634431 / 2 ^ 46 * (1 / 4)) = of_int 6192449487634431 * 2 powr of_int (4 - 52)"
      by (rule rd_near) (simp_all add: powr_neg_numeral)
    then show ?thesis by (simp add: fl_mul_def powr_neg_numeral)
  qed
  have t2: "fl_add 0 (6192449487634431 / 2 ^ 48) = 6192449487634431 / 2 ^ 48"
  proof -
    have "rd (0 + 6192449487634431 / 2 ^ 48) = of_int 6192449487634431 * 2 powr of_int (4 - 52)"
      by (rule rd_near) (simp_all add: powr_neg_numeral)
    then show ?thesis by (simp add: fl_add_def powr_neg_numeral)
  qed
  have p4: "fl_mul 35 (7205759403792794 / 2 ^ 56) = 7881299347898368 / 2 ^ 51"
  proof -
    have "rd (35 * (7205759403792794 / 2 ^ 56)) = of_int 7881299347898368 * 2 powr of_int (1 - 52)"
      by (rule rd_near) (simp_all add: powr_neg_numeral)
    then show ?thesis by (simp add: fl_mul_def powr_neg_numeral)
  qed
  have t3: "fl_add (6192449487634431 / 2 ^ 48) (7881299347898368 / 2 ^ 51) = 7177611906121727 / 2 ^ 48"
  proof -
    have "rd (6192449487634431 / 2 ^ 48 + 7881299347898368 / 2 ^ 51) = of_int 7177611906121727 * 2 powr of_int (4 - 52)"
      by (rule rd_near) (simp_all add: powr_neg_numeral)
    then show ?thesis by (simp add: fl_add_def powr_neg_numeral)
  qed
  show ?thesis
    unfolding mul_0 add_0_0 rd_025 rd_010 p3 t2 p4 t3 ..
qed

lemma diameter_dbl_0: "calculateDiameterScore_dbl lg (Some 0) = 0"
  by (simp add: calculateDiameterScore_dbl_def)

lemma neo_Q_normalize:
  "spec_normalize neo_Q =
     \<lparr> isHazardous = False, diameterMeters = 0, lunarDistance = lunar_Q,
       velocityKmS = velocity_Q \<rparr>"
  by (simp add: spec_normalize_def neo_Q_def unknown_neo_def truthy_def or0_def)

lemma neo_Q_sum:
  "spec_weighted_sum lg (spec_normalize neo_Q) = 7177611906121727 / 2 ^ 48"
  by (simp only: spec_weighted_sum_def neo_Q_normalize factors.select_convs if_False
      diameter_dbl_0 dist_Q vel_Q sum_Q)

lemma neo_Q_score: "spec_score lg (spec_normalize neo_Q) = 25"
  by (simp add: spec_score_def neo_Q_sum round_def)

lemma neo_Q_exact: "round (exact_weighted_sum (spec_normalize neo_Q)) = 26"
  by (simp add: exact_weighted_sum_def neo_Q_normalize calculateDiameterScore_def
      calculateDistanceScore_def calculateVelocityScore_def truthy_def lunar_Q velocity_Q
      MIN_SAFE_DISTANCE_def MAX_CONCERNING_DISTANCE_def MAX_VELOCITY_def Let_def round_def)

lemma log10_nearest_1000: "log10_nearest 1000 = 3"
  by (simp add: log10_nearest_def log10_1000 rd_numeral)

lemma rd_49_2: "rd (49 / 2) = 49 / 2"
  using rd_exact [of "49 / 2" 49 "- 1"] by simp

lemma calculateDistanceScore_dbl_samples:
  "calculateDistanceScore_dbl (Some (1 / 2)) = 100 \<and>
   calculateDistanceScore_dbl (Some 50) = 0 \<and>
   calculateDistanceScore_dbl (Some (51 / 2)) = 50"
proof -
  have "fl_mul (fl_div (fl_sub 50 (51 / 2)) (fl_sub 50 1)) 100 = 50"
    by (simp add: fl_sub_def fl_div_def fl_mul_def rd_numeral rd_49_2 rd_half)
  then show ?thesis
    by (simp add: dist_mid)
      (simp add: calculateDistanceScore_dbl_def truthy_def MIN_SAFE_DISTANCE_def
        MAX_CONCERNING_DISTANCE_def)
qed

lemma diameter_mid:
  "0 < d \<Longrightarrow>
   calculateDiameterScore_dbl lg (Some d) =
     min 100 (max 0 (fl_mul (fl_div (lg d) (lg 1000)) 100))"
  by (simp add: calculateDiameterScore_dbl_def truthy_def MAX_DIAMETER_def Let_def)

lemma calculateDiameterScore_dbl_mono:
  assumes "0 < d1" "d1 \<le> d2" "lg d1 \<le> lg d2" "0 < lg 1000"
  shows "calculateDiameterScore_dbl lg (Some d1) \<le> calculateDiameterScore_dbl lg (Some d2)"
proof -
  from assms(3,4) have "lg d1 / lg 1000 \<le> lg d2 / lg 1000"
    by (simp add: divide_right_mono)
  then have "fl_div (lg d1) (lg 1000) \<le> fl_div (lg d2) (lg 1000)"
    unfolding fl_div_def by (rule rd_mono)
  then have "fl_div (lg d1) (lg 1000) * 100 \<le> fl_div (lg d2) (lg 1000) * 100"
    by simp
  then have "fl_mul (fl_div (lg d1) (lg 1000)) 100 \<le> fl_mul (fl_div (lg d2) (lg 1000)) 100"
    unfolding fl_mul_def by (rule rd_mono)
  then have "min 100 (max 0 (fl_mul (fl_div (lg d1) (lg 1000)) 100)) \<le>
      min 100 (max 0 (fl_mul (fl_div (lg d2) (lg 1000)) 100))"
    by (simp add: min_def max_def)
  with assms(1,2) show ?thesis by (simp add: diameter_mid)
qed

lemma diameter_dbl_1000:
  "lg 1000 \<noteq> 0 \<Longrightarrow> calculateDiameterScore_dbl lg (Some 1000) = 100"
  by (simp add: diameter_mid div_self_dbl fl_mul_def rd_numeral)

lemma log10_nearest_mono:
  "0 < x \<Longrightarrow> x \<le> y \<Longrightarrow> log10_nearest x \<le> log10_nearest y"
  unfolding log10_nearest_def by (rule rd_mono) simp

lemma calculateDiameterScore_pos:
  "0 < d \<Longrightarrow> calculateDiameterScore (Some d) = min 100 (max 0 (log 10 d / 3 * 100))"
  by (simp add: calculateDiameterScore_def truthy_def MAX_DIAMETER_def log10_1000 Let_def)

lemma rd_1: "rd 1 = 1"
  using rd_of_int [of 1] by simp

lemma dist_mid_exact:
  assumes "1 < d" "d < 50"
  shows "calculateDistanceScore_dbl (Some d) = fl_mul (fl_div (fl_sub 50 d) (fl_sub 50 1)) 100"
proof -
  have k: "fl_sub 50 1 = 49" by (simp add: fl_sub_def rd_numeral)
  define a where "a = fl_sub 50 d"
  define b where "b = fl_div a 49"
  define c where "c = fl_mul b 100"
  have "rd 0 \<le> rd (50 - d)" using assms by (intro rd_mono) simp
  then have a0: "0 \<le> a" by (simp add: a_def fl_sub_def rd_0)
  have "rd (50 - d) \<le> rd 49" using assms by (intro rd_mono) simp
  then have a1: "a \<le> 49" by (simp add: a_def fl_sub_def rd_numeral)
  have "rd 0 \<le> rd (a / 49)" using a0 by (intro rd_mono) simp
  then have b0: "0 \<le> b" by (simp add: b_def fl_div_def rd_0)
  have "rd (a / 49) \<le> rd 1" using a1 by (intro rd_mono) simp
  then have b1: "b \<le> 1" by (simp add: b_def fl_div_def rd_1)
  have "rd 0 \<le> rd (b * 100)" using b0 by (intro rd_mono) simp
  then have c0: "0 \<le> c" by (simp add: c_def fl_mul_def rd_0)
  have "rd (b * 100) \<le> rd 100" using b1 by (intro rd_mono) simp
  then have c1: "c \<le> 100" by (simp add: c_def fl_mul_def rd_numeral)
  from c0 c1 have "min 100 (max 0 c) = c" by simp
  then show ?thesis
    using assms by (simp add: dist_mid k a_def b_def c_def)
qed

text \<open>
  C1 (as amended). For every object the factors that \<open>calculateRiskScore\<close> reports are the
  object's own attributes, normalised (the stored value when the object has a non-zero one,
  otherwise the feed's, otherwise 0 or false), and the score is
  round(0.40 * hazardWeight + 0.25 * diameterScore + 0.25 * distanceScore + 0.10 * velocityScore)
  of the sub-scores of these attributes, computed as the program computes it, every product
  and sum rounded to a double and the sum taken from left to right, then clamped to 1..100.
  So 0 is never a score, and the category is the band of the score. An object with no hazard
  flag, no diameter, no distance and no velocity scores 25, category \<open>minimal\<close>: its unknown
  distance counts as the worst case. An object at 6.88 lunar distances and 10.5 km/s with
  nothing else known scores 25 as well, the doubles adding up to 25.499999999999996 where
  exact arithmetic gives 25.5; and a hazardous object of 1000 metres at 0.5 lunar distances
  and 30 km/s scores 100, category \<open>high\<close>, on every platform whose \<open>Math.log10(1000)\<close> is
  not 0.
\<close>

theorem calculateRiskScore_score:
  "factors (calculateRiskScore lg a) = spec_normalize a \<and>
   score (calculateRiskScore lg a) = spec_score lg (spec_normalize a) \<and>
   1 \<le> score (calculateRiskScore lg a) \<and> score (calculateRiskScore lg a) \<le> 100 \<and>
   score (calculateRiskScore lg a) \<noteq> 0 \<and>
   category (calculateRiskScore lg a) = getRiskCategory (score (calculateRiskScore lg a)) \<and>
   (\<not> isHazardous (spec_normalize a) \<and> diameterMeters (spec_normalize a) = 0 \<and>
    lunarDistance (spec_normalize a) = 0 \<and> velocityKmS (spec_normalize a) = 0 \<longrightarrow>
      score (calculateRiskScore lg a) = 25 \<and> category (calculateRiskScore lg a) = minimal) \<and>
   score (calculateRiskScore lg unknown_neo) = 25 \<and>
   category (calculateRiskScore lg unknown_neo) = minimal \<and>
   score (calculateRiskScore lg neo_Q) = 25 \<and>
   category (calculateRiskScore lg neo_Q) = minimal \<and>
   (lg 1000 \<noteq> 0 \<longrightarrow>
      score (calculateRiskScore lg neo_Y) = 100 \<and> category (calculateRiskScore lg neo_Y) = high)"
proof -
  have f: "factors (calculateRiskScore lg a) = spec_normalize a"
    by (rule factors_normalize)
  have s: "score (calculateRiskScore lg a) = spec_score lg (spec_normalize a)"
    by (rule score_formula)
  have r: "1 \<le> score (calculateRiskScore lg a) \<and> score (calculateRiskScore lg a) \<le> 100"
    by (rule score_range)
  have c: "category (calculateRiskScore lg a) = getRiskCategory (score (calculateRiskScore lg a))"
    by (rule category_of_score)
  have z: "score (calculateRiskScore lg a) = 25 \<and> category (calculateRiskScore lg a) = minimal"
    if "\<not> isHazardous (spec_normalize a) \<and> diameterMeters (spec_normalize a) = 0 \<and>
        lunarDistance (spec_normalize a) = 0 \<and> velocityKmS (spec_normalize a) = 0"
    using that by (simp add: category_of_score score_formula zero_factors_score
        getRiskCategory_def)
  have q: "score (calculateRiskScore lg neo_Q) = 25 \<and>
           category (calculateRiskScore lg neo_Q) = minimal"
    by (simp add: category_of_score score_formula neo_Q_score getRiskCategory_def)
  have y: "score (calculateRiskScore lg neo_Y) = 100 \<and>
           category (calculateRiskScore lg neo_Y) = high" if "lg 1000 \<noteq> 0"
    using that by (simp add: category_of_score score_formula neo_Y_score getRiskCategory_def)
  from r have n: "score (calculateRiskScore lg a) \<noteq> 0" by auto
  from f s r n c z unknown_neo_risk [of lg] q y show ?thesis by blast
qed

theorem calculateRiskScore_score_witness:
  "\<not> isHazardous (spec_normalize unknown_neo) \<and> diameterMeters (spec_normalize unknown_neo) = 0 \<and>
   lunarDistance (spec_normalize unknown_neo) = 0 \<and> velocityKmS (spec_normalize unknown_neo) = 0 \<and>
   score (calculateRiskScore log10_nearest unknown_neo) = 25 \<and>
   category (calculateRiskScore log10_nearest unknown_neo) = minimal \<and>
   log10_nearest 1000 \<noteq> 0 \<and>
   score (calculateRiskScore log10_nearest neo_Y) = 100 \<and>
   category (calculateRiskScore log10_nearest neo_Y) = high \<and>
   score (calculateRiskScore log10_nearest neo_Q) = 25 \<and>
   category (calculateRiskScore log10_nearest neo_Q) = minimal"
proof -
  have h: "\<not> isHazardous (spec_normalize unknown_neo) \<and>
     diameterMeters (spec_normalize unknown_neo) = 0 \<and>
     lunarDistance (spec_normalize unknown_neo) = 0 \<and>
     velocityKmS (spec_normalize unknown_neo) = 0"
    by (simp add: unknown_neo_normalize)
  have l: "log10_nearest 1000 \<noteq> 0"
    by (simp add: log10_nearest_1000)
  from calculateRiskScore_score [of log10_nearest unknown_neo] h l show ?thesis by blast
qed

text \<open>The claim as written fails: the all-unknown object does not score 1.\<close>

theorem unknown_neo_score_counterexample:
  "\<not> (score (calculateRiskScore log10_nearest unknown_neo) = 1)"
  by (simp add: unknown_neo_risk)

text \<open>
  C5. The distance sub-score is 100 for an unknown distance and for one that is at most 0,
  100 between 0 and 1 lunar distance, 0 from 50 lunar distances on, and
  100 * (50 - d) / (50 - 1) strictly between 1 and 50; so it is 100 at 0.5, 0 at 50 and 50
  at 25.5. As the program computes it in doubles the cases and the three values are the
  same, the interpolation being that formula with each of its operations rounded.
\<close>

theorem calculateDistanceScore_cases:
  "calculateDistanceScore None = 100 \<and>
   (d1 \<le> 0 \<longrightarrow> calculateDistanceScore (Some d1) = 100) \<and>
   (0 < d2 \<and> d2 \<le> 1 \<longrightarrow> calculateDistanceScore (Some d2) = 100) \<and>
   (d3 \<ge> 50 \<longrightarrow> calculateDistanceScore (Some d3) = 0) \<and>
   (1 < d4 \<and> d4 < 50 \<longrightarrow>
      calculateDistanceScore (Some d4) = 100 * (50 - d4) / (50 - 1)) \<and>
   calculateDistanceScore (Some 0.5) = 100 \<and>
   calculateDistanceScore (Some 50) = 0 \<and>
   calculateDistanceScore (Some 25.5) = 50 \<and>
   calculateDistanceScore_dbl None = 100 \<and>
   (d1 \<le> 0 \<longrightarrow> calculateDistanceScore_dbl (Some d1) = 100) \<and>
   (0 < d2 \<and> d2 \<le> 1 \<longrightarrow> calculateDistanceScore_dbl (Some d2) = 100) \<and>
   (d3 \<ge> 50 \<longrightarrow> calculateDistanceScore_dbl (Some d3) = 0) \<and>
   (1 < d4 \<and> d4 < 50 \<longrightarrow>
      calculateDistanceScore_dbl (Some d4) =
        fl_mul (fl_div (fl_sub 50 d4) (fl_sub 50 1)) 100) \<and>
   calculateDistanceScore_dbl (Some 0.5) = 100 \<and>
   calculateDistanceScore_dbl (Some 50) = 0 \<and>
   calculateDistanceScore_dbl (Some 25.5) = 50"
proof -
  have exact: "calculateDistanceScore None = 100 \<and>
     (d1 \<le> 0 \<longrightarrow> calculateDistanceScore (Some d1) = 100) \<and>
     (0 < d2 \<and> d2 \<le> 1 \<longrightarrow> calculateDistanceScore (Some d2) = 100) \<and>
     (d3 \<ge> 50 \<longrightarrow> calculateDistanceScore (Some d3) = 0) \<and>
     (1 < d4 \<and> d4 < 50 \<longrightarrow>
        calculateDistanceScore (Some d4) = 100 * (50 - d4) / (50 - 1)) \<and>
     calculateDistanceScore (Some 0.5) = 100 \<and>
     calculateDistanceScore (Some 50) = 0 \<and>
     calculateDistanceScore (Some 25.5) = 50"
    by (auto simp: calculateDistanceScore_def truthy_def MIN_SAFE_DISTANCE_def
        MAX_CONCERNING_DISTANCE_def Let_def min_def max_def field_simps)
  have outer: "calculateDistanceScore_dbl None = 100 \<and>
     (d1 \<le> 0 \<longrightarrow> calculateDistanceScore_dbl (Some d1) = 100) \<and>
     (0 < d2 \<and> d2 \<le> 1 \<longrightarrow> calculateDistanceScore_dbl (Some d2) = 100) \<and>
     (d3 \<ge> 50 \<longrightarrow> calculateDistanceScore_dbl (Some d3) = 0)"
    by (simp add: calculateDistanceScore_dbl_def truthy_def MIN_SAFE_DISTANCE_def
        MAX_CONCERNING_DISTANCE_def)
  have mid: "1 < d4 \<and> d4 < 50 \<longrightarrow>
      calculateDistanceScore_dbl (Some d4) = fl_mul (fl_div (fl_sub 50 d4) (fl_sub 50 1)) 100"
    by (simp add: dist_mid_exact)
  have samples: "calculateDistanceScore_dbl (Some 0.5) = 100 \<and>
     calculateDistanceScore_dbl (Some 50) = 0 \<and>
     calculateDistanceScore_dbl (Some 25.5) = 50"
    using calculateDistanceScore_dbl_samples by simp
  from exact outer mid samples show ?thesis by blast
qed

theorem calculateDistanceScore_cases_witness:
  "(-1::real) \<le> 0 \<and> calculateDistanceScore (Some (-1)) = 100 \<and>
   (0::real) < 1/2 \<and> (1/2::real) \<le> 1 \<and> calculateDistanceScore (Some (1/2)) = 100 \<and>
   (60::real) \<ge> 50 \<and> calculateDistanceScore (Some 60) = 0 \<and>
   (1::real) < 8 \<and> (8::real) < 50 \<and>
   calculateDistanceScore (Some 8) = 100 * (50 - 8) / (50 - 1) \<and>
   calculateDistanceScore_dbl (Some (-1)) = 100 \<and>
   calculateDistanceScore_dbl (Some (1/2)) = 100 \<and>
   calculateDistanceScore_dbl (Some 60) = 0 \<and>
   calculateDistanceScore_dbl (Some 8) = fl_mul (fl_div (fl_sub 50 8) (fl_sub 50 1)) 100"
  using calculateDistanceScore_cases [of "-1" "1/2" 60 8] by simp

text \<open>
  C6. The diameter sub-score is monotonic non-decreasing on positive diameters, 0 for a
  diameter that is at most 0 or missing, and 100 at 1000 metres. So it is as the program
  computes it in doubles, wherever the platform's \<open>Math.log10\<close> is itself non-decreasing on
  the two diameters and positive at 1000.
\<close>

theorem calculateDiameterScore_mono:
  "(0 < d1 \<and> d1 \<le> d2 \<longrightarrow>
      calculateDiameterScore (Some d1) \<le> calculateDiameterScore (Some d2)) \<and>
   (d \<le> 0 \<longrightarrow> calculateDiameterScore (Some d) = 0) \<and>
   calculateDiameterScore None = 0 \<and>
   calculateDiameterScore (Some 1000) = 100 \<and>
   (0 < d1 \<and> d1 \<le> d2 \<and> lg d1 \<le> lg d2 \<and> 0 < lg 1000 \<longrightarrow>
      calculateDiameterScore_dbl lg (Some d1) \<le> calculateDiameterScore_dbl lg (Some d2)) \<and>
   (d \<le> 0 \<longrightarrow> calculateDiameterScore_dbl lg (Some d) = 0) \<and>
   calculateDiameterScore_dbl lg None = 0 \<and>
   (lg 1000 \<noteq> 0 \<longrightarrow> calculateDiameterScore_dbl lg (Some 1000) = 100)"
proof (intro conjI impI)
  assume h: "0 < d1 \<and> d1 \<le> d2"
  then have "log 10 d1 \<le> log 10 d2" by simp
  then have "log 10 d1 / 3 * 100 \<le> log 10 d2 / 3 * 100" by simp
  then have "min 100 (max 0 (log 10 d1 / 3 * 100)) \<le> min 100 (max 0 (log 10 d2 / 3 * 100))"
    by (simp add: min_def max_def)
  with h show "calculateDiameterScore (Some d1) \<le> calculateDiameterScore (Some d2)"
    by (simp add: calculateDiameterScore_pos)
next
  assume "d \<le> 0"
  then show "calculateDiameterScore (Some d) = 0"
    by (simp add: calculateDiameterScore_def)
next
  show "calculateDiameterScore None = 0" by (simp add: calculateDiameterScore_def)
next
  show "calculateDiameterScore (Some 1000) = 100"
    by (simp add: calculateDiameterScore_pos log10_1000)
next
  assume "0 < d1 \<and> d1 \<le> d2 \<and> lg d1 \<le> lg d2 \<and> 0 < lg 1000"
  then show "calculateDiameterScore_dbl lg (Some d1) \<le> calculateDiameterScore_dbl lg (Some d2)"
    by (simp add: calculateDiameterScore_dbl_mono)
next
  assume "d \<le> 0"
  then show "calculateDiameterScore_dbl lg (Some d) = 0"
    by (simp add: calculateDiameterScore_dbl_def)
next
  show "calculateDiameterScore_dbl lg None = 0" by (simp add: calculateDiameterScore_dbl_def)
next
  assume "lg 1000 \<noteq> 0"
  then show "calculateDiameterScore_dbl lg (Some 1000) = 100"
    by (rule diameter_dbl_1000)
qed

theorem calculateDiameterScore_mono_witness:
  "(0::real) < 10 \<and> (10::real) \<le> 500 \<and>
   calculateDiameterScore (Some 10) \<le> calculateDiameterScore (Some 500) \<and>
   (-3::real) \<le> 0 \<and> calculateDiameterScore (Some (-3)) = 0 \<and>
   log10_nearest 10 \<le> log10_nearest 500 \<and> 0 < log10_nearest 1000 \<and>
   calculateDiameterScore_dbl log10_nearest (Some 10) \<le>
     calculateDiameterScore_dbl log10_nearest (Some 500) \<and>
   calculateDiameterScore_dbl log10_nearest (Some (-3)) = 0 \<and>
   log10_nearest 1000 \<noteq> 0 \<and>
   calculateDiameterScore_dbl log10_nearest (Some 1000) = 100"
proof -
  have m: "log10_nearest 10 \<le> log10_nearest 500"
    by (rule log10_nearest_mono) simp_all
  have p: "0 < log10_nearest 1000"
    by (simp add: log10_nearest_1000)
  from calculateDiameterScore_mono [where ?d1.0 = 10 and ?d2.0 = 500 and d = "-3"
      and lg = log10_nearest] m p
  show ?thesis by simp
qed

section \<open>The alert sweep\<close>

lemma createAlertForUser_cases:
  "createAlertForUser e io u a s = (None, s) \<or>
   (\<exists>al. createAlertForUser e io u a s =
            (Some al, s\<lparr> alerts := alerts s @ [al],
                          emitted := (if io then emitted s @ [(user_id u, al)] else emitted s) \<rparr>) \<and>
         userId al = user_id u \<and> asteroidId al = neo_reference_id a \<and>
         alert_type al = close_approach \<and>
         createdAt al = ce_now e + int (ce_delay e) \<and>
         Alert_findOne (alerts s) (user_id u) (neo_reference_id a) (ce_now e - day_ms) = None)"
  by (auto simp: createAlertForUser_def createAlertForUser_try_def createCloseApproachAlert_def
      Let_def split: option.splits sum.splits if_splits)

lemma made_for_mono:
  "made_for us as r \<Longrightarrow> set us \<subseteq> set us' \<Longrightarrow> set as \<subseteq> set as' \<Longrightarrow> made_for us' as' r"
  unfolding made_for_def by blast

lemma alert_users_new:
  "\<exists>new. alerts (snd (alert_users env io a us n s)) = alerts s @ new \<and>
         (\<forall>r\<in>set new. made_for us [a] r)"
proof (induction us arbitrary: n s)
  case Nil
  show ?case by simp
next
  case (Cons u us)
  show ?case
  proof (cases "matchesUserThresholds a (alertSettings u)")
    case False
    from Cons.IH [of n s] obtain new where
      n: "alerts (snd (alert_users env io a us n s)) = alerts s @ new"
         "\<forall>r\<in>set new. made_for us [a] r" by blast
    have "\<forall>r\<in>set new. made_for (u # us) [a] r"
      using n(2) by (auto intro: made_for_mono)
    with n(1) False show ?thesis by auto
  next
    case True
    let ?c = "createAlertForUser (call_envs env (user_id u) (neo_reference_id a)) io u a s"
    from createAlertForUser_cases [of "call_envs env (user_id u) (neo_reference_id a)" io u a s]
    show ?thesis
    proof (elim disjE exE conjE)
      assume c: "?c = (None, s)"
      from Cons.IH [of n s] obtain new where
        n: "alerts (snd (alert_users env io a us n s)) = alerts s @ new"
           "\<forall>r\<in>set new. made_for us [a] r" by blast
      have "\<forall>r\<in>set new. made_for (u # us) [a] r"
        using n(2) by (auto intro: made_for_mono)
      with n(1) True c show ?thesis by auto
    next
      fix al
      let ?s' = "s\<lparr> alerts := alerts s @ [al],
                     emitted := (if io then emitted s @ [(user_id u, al)] else emitted s) \<rparr>"
      assume c: "?c = (Some al, ?s')"
        and al: "userId al = user_id u" "asteroidId al = neo_reference_id a"
      from Cons.IH [of "n + 1" ?s'] obtain new where
        n: "alerts (snd (alert_users env io a us (n + 1) ?s')) = alerts ?s' @ new"
           "\<forall>r\<in>set new. made_for us [a] r" by blast
      have m: "made_for (u # us) [a] al"
        using al True by (simp add: made_for_def)
      have "\<forall>r\<in>set (al # new). made_for (u # us) [a] r"
        using n(2) m by (auto intro: made_for_mono)
      moreover have "alerts (snd (alert_users env io a (u # us) n s)) = alerts s @ (al # new)"
        using n(1) True c by simp
      ultimately show ?thesis by blast
    qed
  qed
qed

lemma set_usersToAlert: "set (usersToAlert users a) \<subseteq> set users"
  by (auto simp: usersToAlert_def watchingUsers_def thresholdUsers_def)

lemma dispatch_loop_new:
  "\<exists>new. alerts (snd (dispatch_loop env io users as n s)) = alerts s @ new \<and>
         (\<forall>r\<in>set new. made_for users as r)"
proof (induction as arbitrary: n s)
  case Nil
  show ?case by simp
next
  case (Cons a as)
  show ?case
  proof (cases "user_find_rejects env (neo_reference_id a)")
    case True
    then show ?thesis by simp
  next
    case False
    obtain n' s' where au: "alert_users env io a (usersToAlert users a) n s = (n', s')"
      by (cases "alert_users env io a (usersToAlert users a) n s")
    from alert_users_new [of env io a "usersToAlert users a" n s] au obtain new1 where
      n1: "alerts s' = alerts s @ new1" "\<forall>r\<in>set new1. made_for (usersToAlert users a) [a] r"
      by auto
    from Cons.IH [of n' s'] obtain new2 where
      n2: "alerts (snd (dispatch_loop env io users as n' s')) = alerts s' @ new2"
          "\<forall>r\<in>set new2. made_for users as r" by blast
    have "\<forall>r\<in>set (new1 @ new2). made_for users (a # as) r"
      using n1(2) n2(2) set_usersToAlert [of users a]
      by (auto intro: made_for_mono)
    moreover have "alerts (snd (dispatch_loop env io users (a # as) n s)) = alerts s @ (new1 @ new2)"
      using False au n1(1) n2(1) by simp
    ultimately show ?thesis by blast
  qed
qed

lemma checkAndDispatchAlerts_new:
  "\<exists>new. alerts (snd (checkAndDispatchAlerts env io now days db users s)) = alerts s @ new \<and>
         (\<forall>r\<in>set new. made_for users (upcomingAsteroids now days db) r)"
proof -
  from dispatch_loop_new [of env io users "upcomingAsteroids now days db" 0 s]
  obtain new where n:
    "alerts (snd (dispatch_loop env io users (upcomingAsteroids now days db) 0 s)) = alerts s @ new"
    "\<forall>r\<in>set new. made_for users (upcomingAsteroids now days db) r" by blast
  show ?thesis
  proof (cases "asteroid_find_rejects env \<or> length (upcomingAsteroids now days db) = 0")
    case True
    then have "alerts (snd (checkAndDispatchAlerts env io now days db users s)) = alerts s @ []"
      by (auto simp: checkAndDispatchAlerts_def Let_def)
    then show ?thesis by (metis empty_iff list.set(1))
  next
    case False
    then have "alerts (snd (checkAndDispatchAlerts env io now days db users s)) = alerts s @ new"
      using n(1) by (auto simp: checkAndDispatchAlerts_def Let_def split: prod.splits option.splits)
    with n(2) show ?thesis by blast
  qed
qed

lemmas sample_defs = asteroid_X_def asteroid_Y_def blank_asteroid_def user_U_def user_V_def
  calm_env_def no_alerts_def alert_at_def

lemmas sweep_defs = checkAndDispatchAlerts_def upcomingAsteroids_def futureDate_def day_ms_def
  usersToAlert_def watchingUsers_def thresholdUsers_def watches_def matchesUserThresholds_def
  createAlertForUser_def createAlertForUser_try_def createCloseApproachAlert_def
  Alert_findOne_def required_string_def truthy_def js_lt_def js_gt_def js_ge_def Let_def

lemma sweep_Y_W:
  "checkAndDispatchAlerts (calm_env 0) True 0 7 [asteroid_Y] [user_W] no_alerts =
     (\<lparr> alertsSent = 1, sweep_failed = False \<rparr>,
      \<lparr> alerts = [alert_at 0 user_W asteroid_Y],
        emitted = [(3, alert_at 0 user_W asteroid_Y)] \<rparr>)"
  by (simp add: sample_defs user_W_def sweep_defs)

lemma sweep_Y_V:
  "checkAndDispatchAlerts (calm_env 0) True 0 7 [asteroid_Y] [user_V] no_alerts =
     (\<lparr> alertsSent = 1, sweep_failed = False \<rparr>,
      \<lparr> alerts = [alert_at 0 user_V asteroid_Y],
        emitted = [(2, alert_at 0 user_V asteroid_Y)] \<rparr>)"
  by (simp add: sample_defs sweep_defs)

lemma alert_users_nomatch:
  "\<forall>u\<in>set us. \<not> matchesUserThresholds a (alertSettings u) \<Longrightarrow>
   alert_users env io a us n s = (n, s)"
  by (induction us) simp_all

lemma matches_explicit:
  "matchesUserThresholds a st \<longleftrightarrow>
     \<not> ((\<exists>d m. estimatedDiameterMax a = Some d \<and> minDiameter st = Some m \<and> m \<noteq> 0 \<and> d < m) \<or>
        (\<exists>d m. missDistanceLunar a = Some d \<and> maxDistance st = Some m \<and> m \<noteq> 0 \<and> d > m) \<or>
        (\<exists>d m. riskScore a = Some d \<and> riskThreshold st = Some m \<and> m \<noteq> 0 \<and> d < m))"
  by (auto simp: matchesUserThresholds_def truthy_def js_lt_def js_gt_def
      split: option.splits)

lemma sweep_single_nomatch:
  assumes "\<not> matchesUserThresholds a (alertSettings u)"
  shows "snd (checkAndDispatchAlerts env io now days [a] [u] s) = s"
proof -
  have "\<forall>v\<in>set (usersToAlert [u] a). \<not> matchesUserThresholds a (alertSettings v)"
    using assms set_usersToAlert [of "[u]" a] by auto
  then have "alert_users env io a (usersToAlert [u] a) 0 s = (0, s)"
    by (rule alert_users_nomatch)
  then show ?thesis
    by (simp add: checkAndDispatchAlerts_def upcomingAsteroids_def Let_def
        split: option.splits)
qed

text \<open>
  C3 (as amended). Every alert record a sweep adds to the collection is for a user and an
  object such that the object passes that user's personal filter, whichever query produced
  the user. The filter as coded: each of \<open>minDiameter\<close>, \<open>maxDistance\<close>, \<open>riskThreshold\<close> that
  is set and not 0 bounds the object's value, when the object has one (diameter-max at
  least \<open>minDiameter\<close>, lunar distance at most \<open>maxDistance\<close>, score at least
  \<open>riskThreshold\<close>). A sweep over an object of score 40 and a user whose \<open>riskThreshold\<close>
  is 60 leaves the collection and the emitted events as they were.
\<close>

theorem alerts_only_when_filter_passes:
  "(r \<in> set (alerts (snd (checkAndDispatchAlerts env io now days db users s))) \<and>
    r \<notin> set (alerts s) \<longrightarrow>
      (\<exists>u\<in>set users. \<exists>a\<in>set db.
          userId r = user_id u \<and> asteroidId r = neo_reference_id a \<and>
          matchesUserThresholds a (alertSettings u))) \<and>
   (matchesUserThresholds a st \<longrightarrow>
      (\<forall>d m. estimatedDiameterMax a = Some d \<and> minDiameter st = Some m \<and> m \<noteq> 0 \<longrightarrow> d \<ge> m) \<and>
      (\<forall>d m. missDistanceLunar a = Some d \<and> maxDistance st = Some m \<and> m \<noteq> 0 \<longrightarrow> d \<le> m) \<and>
      (\<forall>d m. riskScore a = Some d \<and> riskThreshold st = Some m \<and> m \<noteq> 0 \<longrightarrow> d \<ge> m)) \<and>
   (riskScore x = Some 40 \<and> riskThreshold (alertSettings w) = Some 60 \<longrightarrow>
      snd (checkAndDispatchAlerts env io now days [x] [w] s) = s)"
proof (intro conjI impI)
  assume h: "r \<in> set (alerts (snd (checkAndDispatchAlerts env io now days db users s))) \<and>
    r \<notin> set (alerts s)"
  from checkAndDispatchAlerts_new [of env io now days db users s] obtain new where
    n: "alerts (snd (checkAndDispatchAlerts env io now days db users s)) = alerts s @ new"
       "\<forall>r\<in>set new. made_for users (upcomingAsteroids now days db) r" by blast
  from h n(1) have "r \<in> set new" by auto
  with n(2) have "made_for users (upcomingAsteroids now days db) r" by blast
  then have "made_for users db r"
    by (rule made_for_mono) (auto simp: upcomingAsteroids_def)
  then show "\<exists>u\<in>set users. \<exists>a\<in>set db.
          userId r = user_id u \<and> asteroidId r = neo_reference_id a \<and>
          matchesUserThresholds a (alertSettings u)"
    by (simp add: made_for_def)
next
  assume "matchesUserThresholds a st"
  then show "\<forall>d m. estimatedDiameterMax a = Some d \<and> minDiameter st = Some m \<and> m \<noteq> 0 \<longrightarrow> d \<ge> m"
    by (auto simp: matches_explicit)
next
  assume "matchesUserThresholds a st"
  then show "\<forall>d m. missDistanceLunar a = Some d \<and> maxDistance st = Some m \<and> m \<noteq> 0 \<longrightarrow> d \<le> m"
    by (auto simp: matches_explicit)
next
  assume "matchesUserThresholds a st"
  then show "\<forall>d m. riskScore a = Some d \<and> riskThreshold st = Some m \<and> m \<noteq> 0 \<longrightarrow> d \<ge> m"
    by (auto simp: matches_explicit)
next
  assume "riskScore x = Some 40 \<and> riskThreshold (alertSettings w) = Some 60"
  then have "\<not> matchesUserThresholds x (alertSettings w)"
    by (simp add: matches_explicit)
  then show "snd (checkAndDispatchAlerts env io now days [x] [w] s) = s"
    by (rule sweep_single_nomatch)
qed

theorem alerts_only_when_filter_passes_witness:
  "alert_at 0 user_V asteroid_Y \<in>
     set (alerts (snd (checkAndDispatchAlerts (calm_env 0) True 0 7
                        [asteroid_Y] [user_V] no_alerts))) \<and>
   alert_at 0 user_V asteroid_Y \<notin> set (alerts no_alerts) \<and>
   userId (alert_at 0 user_V asteroid_Y) = user_id user_V \<and>
   asteroidId (alert_at 0 user_V asteroid_Y) = neo_reference_id asteroid_Y \<and>
   matchesUserThresholds asteroid_Y (alertSettings user_V) \<and>
   estimatedDiameterMax asteroid_Y = Some 300 \<and> minDiameter (alertSettings user_V) = Some 100 \<and>
   missDistanceLunar asteroid_Y = Some 5 \<and> maxDistance (alertSettings user_V) = Some 10 \<and>
   riskScore asteroid_Y = Some 82 \<and> riskThreshold (alertSettings user_V) = Some 50 \<and>
   riskScore asteroid_X = Some 40 \<and> riskThreshold (alertSettings user_U) = Some 60 \<and>
   watches user_U asteroid_X \<and>
   snd (checkAndDispatchAlerts (calm_env 0) True 0 7 [asteroid_X] [user_U] no_alerts) = no_alerts"
proof -
  have a: "alert_at 0 user_V asteroid_Y \<in>
     set (alerts (snd (checkAndDispatchAlerts (calm_env 0) True 0 7
                        [asteroid_Y] [user_V] no_alerts))) \<and>
     alert_at 0 user_V asteroid_Y \<notin> set (alerts no_alerts)"
    by (simp add: sweep_Y_V) (simp add: no_alerts_def)
  have b: "riskScore asteroid_X = Some 40 \<and> riskThreshold (alertSettings user_U) = Some 60"
    by (simp add: sample_defs)
  have c: "matchesUserThresholds asteroid_Y (alertSettings user_V)"
    by (simp add: sample_defs matchesUserThresholds_def truthy_def js_lt_def js_gt_def)
  have d: "estimatedDiameterMax asteroid_Y = Some 300 \<and> minDiameter (alertSettings user_V) = Some 100 \<and>
   missDistanceLunar asteroid_Y = Some 5 \<and> maxDistance (alertSettings user_V) = Some 10 \<and>
   riskScore asteroid_Y = Some 82 \<and> riskThreshold (alertSettings user_V) = Some 50 \<and>
   watches user_U asteroid_X \<and>
   userId (alert_at 0 user_V asteroid_Y) = user_id user_V \<and>
   asteroidId (alert_at 0 user_V asteroid_Y) = neo_reference_id asteroid_Y"
    by (simp add: sample_defs watches_def)
  from alerts_only_when_filter_passes
    [of "alert_at 0 user_V asteroid_Y" "calm_env 0" True 0 7 "[asteroid_Y]" "[user_V]" no_alerts
        asteroid_Y "alertSettings user_V" asteroid_X user_U]
    a b c d
  show ?thesis by blast
qed

text \<open>The claim as written fails: a watcher whose \<open>maxDistance\<close> is 0 is alerted about an
  object 5 lunar distances away, since a setting of 0 switches its condition off.\<close>

theorem personal_filter_counterexample:
  "\<not> (length (alerts (snd (checkAndDispatchAlerts (calm_env 0) True 0 7
                    [asteroid_Y] [user_W] no_alerts))) = 0 \<or>
       spec_personal_filter asteroid_Y (alertSettings user_W))"
  by (simp add: sweep_Y_W) (simp add: spec_personal_filter_def sample_defs user_W_def js_ge_def)

text \<open>
  C4. The threshold-matchers of an object are non-empty only when its score is at least 50;
  then they are exactly the users with alerts enabled, a \<open>riskThreshold\<close> at most the score
  and the object's id not in their watch list; below 50 there are none; and no user is both
  a watcher and a threshold-matcher.
\<close>

theorem thresholdUsers_spec:
  "(thresholdUsers users a \<noteq> [] \<longrightarrow> (\<exists>sc. riskScore a = Some sc \<and> 50 \<le> sc)) \<and>
   ((\<exists>sc. riskScore a = Some sc \<and> 50 \<le> sc) \<longrightarrow>
      set (thresholdUsers users a) =
        {u. u \<in> set users \<and> enabled (alertSettings u) = Some True \<and>
            (\<exists>t sc. riskThreshold (alertSettings u) = Some t \<and> riskScore a = Some sc \<and> t \<le> sc) \<and>
            neo_reference_id a \<notin> Some ` set (watched_asteroid_ids u)}) \<and>
   ((\<exists>sc. riskScore a = Some sc \<and> sc < 50) \<longrightarrow> thresholdUsers users a = []) \<and>
   set (watchingUsers users a) \<inter> set (thresholdUsers users a) = {}"
proof (intro conjI impI)
  assume "thresholdUsers users a \<noteq> []"
  then show "\<exists>sc. riskScore a = Some sc \<and> 50 \<le> sc"
    by (auto simp: thresholdUsers_def js_ge_def split: if_splits option.splits)
next
  assume "\<exists>sc. riskScore a = Some sc \<and> 50 \<le> sc"
  then show "set (thresholdUsers users a) =
        {u. u \<in> set users \<and> enabled (alertSettings u) = Some True \<and>
            (\<exists>t sc. riskThreshold (alertSettings u) = Some t \<and> riskScore a = Some sc \<and> t \<le> sc) \<and>
            neo_reference_id a \<notin> Some ` set (watched_asteroid_ids u)}"
    by (auto simp: thresholdUsers_def js_ge_def watches_def split: option.splits)
next
  assume "\<exists>sc. riskScore a = Some sc \<and> sc < 50"
  then show "thresholdUsers users a = []"
    by (auto simp: thresholdUsers_def js_ge_def)
next
  show "set (watchingUsers users a) \<inter> set (thresholdUsers users a) = {}"
    by (auto simp: thresholdUsers_def watchingUsers_def)
qed

theorem thresholdUsers_spec_witness:
  "thresholdUsers [user_U, user_V, user_W] asteroid_Y = [user_U, user_V] \<and>
   thresholdUsers [user_U, user_V, user_W] asteroid_Y \<noteq> [] \<and>
   riskScore asteroid_Y = Some 82 \<and> (50::real) \<le> 82 \<and>
   set (thresholdUsers [user_U, user_V, user_W] asteroid_Y) =
        {u. u \<in> set [user_U, user_V, user_W] \<and> enabled (alertSettings u) = Some True \<and>
            (\<exists>t sc. riskThreshold (alertSettings u) = Some t \<and> riskScore asteroid_Y = Some sc \<and> t \<le> sc) \<and>
            neo_reference_id asteroid_Y \<notin> Some ` set (watched_asteroid_ids u)} \<and>
   riskScore asteroid_X = Some 40 \<and> (40::real) < 50 \<and>
   thresholdUsers [user_U, user_V, user_W] asteroid_X = []"
proof -
  have a: "thresholdUsers [user_U, user_V, user_W] asteroid_Y = [user_U, user_V]"
    by (simp add: sample_defs user_W_def thresholdUsers_def js_ge_def watches_def)
  have b: "riskScore asteroid_Y = Some 82 \<and> (50::real) \<le> 82 \<and>
           riskScore asteroid_X = Some 40 \<and> (40::real) < 50"
    by (simp add: sample_defs)
  have y: "\<exists>sc. riskScore asteroid_Y = Some sc \<and> 50 \<le> sc" using b by simp
  have x: "\<exists>sc. riskScore asteroid_X = Some sc \<and> sc < 50" using b by simp
  note ty = thresholdUsers_spec [of "[user_U, user_V, user_W]" asteroid_Y]
  note tx = thresholdUsers_spec [of "[user_U, user_V, user_W]" asteroid_X]
  have s: "set (thresholdUsers [user_U, user_V, user_W] asteroid_Y) =
        {u. u \<in> set [user_U, user_V, user_W] \<and> enabled (alertSettings u) = Some True \<and>
            (\<exists>t sc. riskThreshold (alertSettings u) = Some t \<and> riskScore asteroid_Y = Some sc \<and> t \<le> sc) \<and>
            neo_reference_id asteroid_Y \<notin> Some ` set (watched_asteroid_ids u)}"
    by (rule ty [THEN conjunct2, THEN conjunct1, THEN mp, OF y])
  have e: "thresholdUsers [user_U, user_V, user_W] asteroid_X = []"
    by (rule tx [THEN conjunct2, THEN conjunct2, THEN conjunct1, THEN mp, OF x])
  have n: "thresholdUsers [user_U, user_V, user_W] asteroid_Y \<noteq> []"
    by (simp add: a)
  from a b s e n show ?thesis by (intro conjI) simp_all
qed

section \<open>The dedup guard and the personal filter\<close>




















text \<open>
  C10. In \<open>matchesUserThresholds\<close> a condition is applied only when the user's setting is
  truthy: with \<open>minDiameter\<close>, \<open>maxDistance\<close> or \<open>riskThreshold\<close> 0 or absent, the object's
  value for that condition does not matter, and with all three so every object passes. An
  object that lacks the value a condition reads passes that condition whatever the setting.
  The filter rejects exactly when a present value compares strictly against a non-zero
  setting.
\<close>

theorem matchesUserThresholds_skips:
  "(\<not> truthy (minDiameter st) \<longrightarrow>
      matchesUserThresholds (a\<lparr> estimatedDiameterMax := v \<rparr>) st = matchesUserThresholds a st) \<and>
   (\<not> truthy (maxDistance st) \<longrightarrow>
      matchesUserThresholds (a\<lparr> missDistanceLunar := v \<rparr>) st = matchesUserThresholds a st) \<and>
   (\<not> truthy (riskThreshold st) \<longrightarrow>
      matchesUserThresholds (a\<lparr> riskScore := v \<rparr>) st = matchesUserThresholds a st) \<and>
   (\<not> truthy (minDiameter st) \<and> \<not> truthy (maxDistance st) \<and> \<not> truthy (riskThreshold st) \<longrightarrow>
      matchesUserThresholds a st) \<and>
   (estimatedDiameterMax b = None \<longrightarrow>
      matchesUserThresholds b (st\<lparr> minDiameter := m \<rparr>) = matchesUserThresholds b st) \<and>
   (missDistanceLunar b = None \<longrightarrow>
      matchesUserThresholds b (st\<lparr> maxDistance := m \<rparr>) = matchesUserThresholds b st) \<and>
   (riskScore b = None \<longrightarrow>
      matchesUserThresholds b (st\<lparr> riskThreshold := m \<rparr>) = matchesUserThresholds b st) \<and>
   (estimatedDiameterMax b = None \<and> missDistanceLunar b = None \<and> riskScore b = None \<longrightarrow>
      matchesUserThresholds b st) \<and>
   (\<not> matchesUserThresholds a st \<longleftrightarrow>
      (\<exists>d t. estimatedDiameterMax a = Some d \<and> minDiameter st = Some t \<and> t \<noteq> 0 \<and> d < t) \<or>
      (\<exists>d t. missDistanceLunar a = Some d \<and> maxDistance st = Some t \<and> t \<noteq> 0 \<and> d > t) \<or>
      (\<exists>d t. riskScore a = Some d \<and> riskThreshold st = Some t \<and> t \<noteq> 0 \<and> d < t))"
proof (intro conjI impI)
  show "(\<not> matchesUserThresholds a st) \<longleftrightarrow>
      (\<exists>d t. estimatedDiameterMax a = Some d \<and> minDiameter st = Some t \<and> t \<noteq> 0 \<and> d < t) \<or>
      (\<exists>d t. missDistanceLunar a = Some d \<and> maxDistance st = Some t \<and> t \<noteq> 0 \<and> d > t) \<or>
      (\<exists>d t. riskScore a = Some d \<and> riskThreshold st = Some t \<and> t \<noteq> 0 \<and> d < t)"
    by (simp add: matches_explicit)
qed (auto simp: matchesUserThresholds_def truthy_def js_lt_def js_gt_def split: option.splits)

theorem matchesUserThresholds_skips_witness:
  "\<not> truthy (minDiameter zero_settings) \<and> \<not> truthy (maxDistance zero_settings) \<and>
   \<not> truthy (riskThreshold zero_settings) \<and>
   matchesUserThresholds (asteroid_X\<lparr> estimatedDiameterMax := Some 1 \<rparr>) zero_settings \<and>
   matchesUserThresholds (asteroid_X\<lparr> missDistanceLunar := Some 1 \<rparr>) zero_settings \<and>
   matchesUserThresholds (asteroid_X\<lparr> riskScore := Some 1 \<rparr>) zero_settings \<and>
   matchesUserThresholds asteroid_X zero_settings \<and>
   estimatedDiameterMax blank_asteroid = None \<and> missDistanceLunar blank_asteroid = None \<and>
   riskScore blank_asteroid = None \<and>
   matchesUserThresholds blank_asteroid (alertSettings user_U) \<and>
   matchesUserThresholds blank_asteroid ((alertSettings user_U)\<lparr> minDiameter := Some 5000 \<rparr>) \<and>
   matchesUserThresholds blank_asteroid ((alertSettings user_U)\<lparr> maxDistance := Some 5000 \<rparr>) \<and>
   matchesUserThresholds blank_asteroid ((alertSettings user_U)\<lparr> riskThreshold := Some 5000 \<rparr>)"
proof -
  have z: "\<not> truthy (minDiameter zero_settings) \<and> \<not> truthy (maxDistance zero_settings) \<and>
     \<not> truthy (riskThreshold zero_settings)"
    by (simp add: zero_settings_def truthy_def)
  have b: "estimatedDiameterMax blank_asteroid = None \<and> missDistanceLunar blank_asteroid = None \<and>
     riskScore blank_asteroid = None"
    by (simp add: blank_asteroid_def)
  note t1 = matchesUserThresholds_skips [where st = zero_settings and a = asteroid_X
      and v = "Some 1" and b = blank_asteroid and m = "Some 5000"]
  note t2 = matchesUserThresholds_skips [where st = "alertSettings user_U" and a = asteroid_X
      and v = "Some 1" and b = blank_asteroid and m = "Some 5000"]
  have w0: "matchesUserThresholds asteroid_X zero_settings"
    using t1 z by blast
  have w1: "matchesUserThresholds (asteroid_X\<lparr> estimatedDiameterMax := Some 1 \<rparr>) zero_settings"
    using t1 z w0 by simp
  have w2: "matchesUserThresholds (asteroid_X\<lparr> missDistanceLunar := Some 1 \<rparr>) zero_settings"
    using t1 z w0 by simp
  have w3: "matchesUserThresholds (asteroid_X\<lparr> riskScore := Some 1 \<rparr>) zero_settings"
    using t1 z w0 by simp
  have v0: "matchesUserThresholds blank_asteroid (alertSettings user_U)"
    using t2 b by blast
  have v1: "matchesUserThresholds blank_asteroid
      ((alertSettings user_U)\<lparr> minDiameter := Some 5000 \<rparr>)"
    using t2 [THEN conjunct2] b v0 by simp
  have v2: "matchesUserThresholds blank_asteroid
      ((alertSettings user_U)\<lparr> maxDistance := Some 5000 \<rparr>)"
    using t2 [THEN conjunct2] b v0 by simp
  have v3: "matchesUserThresholds blank_asteroid
      ((alertSettings user_U)\<lparr> riskThreshold := Some 5000 \<rparr>)"
    using t2 [THEN conjunct2] b v0 by simp
  from z b w0 w1 w2 w3 v0 v1 v2 v3 show ?thesis by blast
qed

section \<open>The object store and the batch\<close>

lemma asteroidData_key [simp]:
  "neo_reference_id (asteroidData D t n s c) = str_or (neo_neo_reference_id n) (neo_id n)"
  by (simp add: asteroidData_def Let_def)

lemma asteroidData_ttl:
  "asteroidData D t2 n s c =
     (asteroidData D t1 n s c)\<lparr> expiresAt := Some (t2 + day_ms), lastFetchedAt := Some t2 \<rparr>"
  by (simp add: asteroidData_def Let_def)

lemma asteroidData_stamps [simp]:
  "a_createdAt (asteroidData D t n s c) = None \<and> a_updatedAt (asteroidData D t n s c) = None"
  by (simp add: asteroidData_def Let_def)

lemma findOneAndUpdate_ids:
  "neo_reference_id upd = key \<Longrightarrow>
   ids (snd (findOneAndUpdate t key upd db)) =
     (if key \<in> set (ids db) then ids db else ids db @ [key])"
  by (induction db)
    (auto simp: ids_def apply_update_def set_path_def split: prod.splits option.splits)

lemma findOneAndUpdate_fst_mem:
  "fst (findOneAndUpdate t key upd db) \<in> set (snd (findOneAndUpdate t key upd db))"
  by (induction db) (auto split: prod.splits)

lemma findOneAndUpdate_fst_key:
  "neo_reference_id upd = key \<Longrightarrow> neo_reference_id (fst (findOneAndUpdate t key upd db)) = key"
  by (induction db) (auto simp: apply_update_def set_path_def split: prod.splits option.splits)

lemma findOneAndUpdate_fst_updatedAt:
  "a_updatedAt (fst (findOneAndUpdate t key upd db)) = Some t"
  by (induction db) (auto split: prod.splits)

lemma set_path_idem: "set_path x (set_path x y) = set_path x y"
  by (simp add: set_path_def split: option.splits)

lemma set_path_same: "set_path x x = x"
  by (simp add: set_path_def split: option.splits)

lemma set_path_Some: "set_path (Some v) y = Some v"
  by (simp add: set_path_def)

lemma set_path_None: "set_path None y = y"
  by (simp add: set_path_def)

lemma apply_update_again:
  "a_updatedAt u = None \<Longrightarrow>
   apply_update (u\<lparr> expiresAt := Some e, lastFetchedAt := Some f \<rparr>)
       ((apply_update u d)\<lparr> a_updatedAt := Some t \<rparr>) =
     (apply_update u d)\<lparr> expiresAt := Some e, lastFetchedAt := Some f, a_updatedAt := Some t \<rparr>"
  by (simp add: apply_update_def set_path_idem set_path_Some set_path_None)

lemma apply_update_self:
  "a_createdAt u = None \<Longrightarrow> a_updatedAt u = None \<Longrightarrow>
   apply_update (u\<lparr> expiresAt := Some e, lastFetchedAt := Some f \<rparr>)
       (u\<lparr> a_createdAt := Some t, a_updatedAt := Some t \<rparr>) =
     u\<lparr> expiresAt := Some e, lastFetchedAt := Some f, a_createdAt := Some t,
        a_updatedAt := Some t \<rparr>"
  by (simp add: apply_update_def set_path_same set_path_Some set_path_None)

lemma apply_update_key:
  "neo_reference_id d = neo_reference_id u \<Longrightarrow>
   neo_reference_id (apply_update u d) = neo_reference_id u"
  by (simp add: apply_update_def set_path_same)

lemma without_stamps_refresh:
  "without_stamps (d\<lparr> expiresAt := e, lastFetchedAt := f, a_updatedAt := g \<rparr>) = without_stamps d"
  "without_stamps (d\<lparr> a_updatedAt := g \<rparr>) = without_stamps d"
  by (simp_all add: without_stamps_def)

lemma findOneAndUpdate_Cons_other:
  "neo_reference_id d \<noteq> key \<Longrightarrow>
   fst (findOneAndUpdate t key u (d # ds)) = fst (findOneAndUpdate t key u ds) \<and>
   snd (findOneAndUpdate t key u (d # ds)) = d # snd (findOneAndUpdate t key u ds)"
  by (simp split: prod.splits)

lemma findOneAndUpdate_second:
  assumes "neo_reference_id u = key" "a_createdAt u = None" "a_updatedAt u = None"
  shows "fst (findOneAndUpdate t2 key (u\<lparr> expiresAt := Some e, lastFetchedAt := Some f \<rparr>)
                (snd (findOneAndUpdate t1 key u db))) =
           (fst (findOneAndUpdate t1 key u db))
             \<lparr> expiresAt := Some e, lastFetchedAt := Some f, a_updatedAt := Some t2 \<rparr> \<and>
         map without_stamps
           (snd (findOneAndUpdate t2 key (u\<lparr> expiresAt := Some e, lastFetchedAt := Some f \<rparr>)
                (snd (findOneAndUpdate t1 key u db)))) =
           map without_stamps (snd (findOneAndUpdate t1 key u db))"
  using assms
proof (induction db)
  case Nil
  then show ?case by (simp add: apply_update_self without_stamps_def)
next
  case (Cons d ds)
  show ?case
  proof (cases "neo_reference_id d = key")
    case True
    with Cons.prems have "neo_reference_id (apply_update u d) = key"
      by (simp add: apply_update_key)
    with True Cons.prems show ?thesis
      by (simp add: apply_update_again without_stamps_def)
  next
    case False
    note o1 = findOneAndUpdate_Cons_other [OF False, of t1 u ds]
    note o2 = findOneAndUpdate_Cons_other [OF False,
        of t2 "u\<lparr> expiresAt := Some e, lastFetchedAt := Some f \<rparr>"
          "snd (findOneAndUpdate t1 key u ds)"]
    from Cons.IH [OF Cons.prems] o1 o2 show ?thesis
      by (simp del: findOneAndUpdate.simps)
  qed
qed

lemma filter_key_one:
  "distinct (map f xs) \<Longrightarrow> k \<in> set (map f xs) \<Longrightarrow> length (filter (\<lambda>x. f x = k) xs) = 1"
proof (induction xs)
  case Nil
  then show ?case by simp
next
  case (Cons x xs)
  show ?case
  proof (cases "f x = k")
    case True
    with Cons.prems have "k \<notin> f ` set xs" by simp
    then have "\<forall>y\<in>set xs. f y \<noteq> k" by blast
    then have "filter (\<lambda>x. f x = k) xs = []" by (simp add: filter_empty_conv)
    with True show ?thesis by simp
  next
    case False
    with Cons show ?thesis by auto
  qed
qed

lemma findOneAndUpdate_distinct:
  "neo_reference_id upd = key \<Longrightarrow> distinct (ids db) \<Longrightarrow>
   distinct (ids (snd (findOneAndUpdate t key upd db))) \<and>
   key \<in> set (ids (snd (findOneAndUpdate t key upd db)))"
  by (simp add: findOneAndUpdate_ids)






lemma upsert_Y_first:
  "upsertFromNASA sample_Date 1000 False neo_Y 100 high [] =
     Inr (stored_Y 1000 1000, [stored_Y 1000 1000])"
  by (simp add: upsertFromNASA_def Let_def stored_Y_def)

lemma upsert_Y_second:
  "upsertFromNASA sample_Date 5000 False neo_Y 100 high [stored_Y 1000 1000] =
     Inr (stored_Y 1000 5000, [stored_Y 1000 5000])"
proof -
  have r: "asteroidData sample_Date 5000 neo_Y 100 high =
      (asteroidData sample_Date 1000 neo_Y 100 high)
        \<lparr> expiresAt := Some (5000 + day_ms), lastFetchedAt := Some 5000 \<rparr>"
    by (rule asteroidData_ttl)
  have k: "neo_reference_id (stored_Y 1000 1000) =
      neo_reference_id (asteroidData sample_Date 5000 neo_Y 100 high)"
    by (simp add: stored_Y_def)
  have "apply_update (asteroidData sample_Date 5000 neo_Y 100 high) (stored_Y 1000 1000) =
      (asteroidData sample_Date 5000 neo_Y 100 high)
        \<lparr> a_createdAt := Some 1000, a_updatedAt := Some 1000 \<rparr>"
    unfolding stored_Y_def
    by (subst r, subst apply_update_self) (simp_all add: r)
  with k show ?thesis
    by (simp add: upsertFromNASA_def Let_def) (simp add: stored_Y_def)
qed

text \<open>
  C7 (as amended). Two upserts of the same raw record, both accepted by the store, the second
  on the collection the first left: the collection after the second has the same documents,
  in every field but \<open>expiresAt\<close>, \<open>lastFetchedAt\<close> and \<open>updatedAt\<close>; the record's document
  carries the second call's instant in these three fields (the first call's before) and
  keeps its \<open>createdAt\<close>; and when the external ids of the collection were distinct before,
  they still are, with exactly one document for the record's external id after either call.
\<close>

theorem upsertFromNASA_idempotent:
  "upsertFromNASA D t1 False n sc c d0 = Inr (a1, d1) \<and>
   upsertFromNASA D t2 False n sc c d1 = Inr (a2, d2) \<longrightarrow>
     map without_stamps d2 = map without_stamps d1 \<and>
     a2 = a1\<lparr> expiresAt := Some (t2 + day_ms), lastFetchedAt := Some t2,
              a_updatedAt := Some t2 \<rparr> \<and>
     expiresAt a1 = Some (t1 + day_ms) \<and> lastFetchedAt a1 = Some t1 \<and>
     a_updatedAt a1 = Some t1 \<and> a_createdAt a2 = a_createdAt a1 \<and>
     a1 \<in> set d1 \<and> a2 \<in> set d2 \<and>
     neo_reference_id a1 = external_id n \<and>
     (distinct (ids d0) \<longrightarrow>
        distinct (ids d1) \<and> distinct (ids d2) \<and>
        length (filter (\<lambda>d. neo_reference_id d = external_id n) d1) = 1 \<and>
        length (filter (\<lambda>d. neo_reference_id d = external_id n) d2) = 1)"
proof (intro impI)
  let ?u1 = "asteroidData D t1 n sc c"
  let ?u2 = "asteroidData D t2 n sc c"
  let ?k = "external_id n"
  assume h: "upsertFromNASA D t1 False n sc c d0 = Inr (a1, d1) \<and>
             upsertFromNASA D t2 False n sc c d1 = Inr (a2, d2)"
  have k1: "neo_reference_id ?u1 = ?k" by (simp add: external_id_def)
  have k2: "neo_reference_id ?u2 = ?k" by (simp add: external_id_def)
  from h have f1: "findOneAndUpdate t1 ?k ?u1 d0 = (a1, d1)"
    by (simp add: upsertFromNASA_def Let_def external_id_def split: if_splits)
  from h have f2: "findOneAndUpdate t2 ?k ?u2 d1 = (a2, d2)"
    by (simp add: upsertFromNASA_def Let_def external_id_def split: if_splits)
  have u2: "?u2 = ?u1\<lparr> expiresAt := Some (t2 + day_ms), lastFetchedAt := Some t2 \<rparr>"
    by (rule asteroidData_ttl)
  have c1: "a_createdAt ?u1 = None" and c2: "a_updatedAt ?u1 = None"
    by simp_all
  from findOneAndUpdate_second [OF k1 c1 c2, where e = "t2 + day_ms" and f = t2 and db = d0
      and ?t1.0 = t1 and ?t2.0 = t2] f1 f2 u2
  have s: "a2 = a1\<lparr> expiresAt := Some (t2 + day_ms), lastFetchedAt := Some t2,
                    a_updatedAt := Some t2 \<rparr> \<and>
           map without_stamps d2 = map without_stamps d1"
    by simp
  have e: "expiresAt a1 = Some (t1 + day_ms) \<and> lastFetchedAt a1 = Some t1"
  proof -
    have "expiresAt (fst (findOneAndUpdate t1 ?k ?u1 d)) = Some (t1 + day_ms) \<and>
          lastFetchedAt (fst (findOneAndUpdate t1 ?k ?u1 d)) = Some t1" for d
      by (induction d)
        (auto simp: asteroidData_def Let_def apply_update_def set_path_def split: prod.splits)
    from this [of d0] f1 show ?thesis by simp
  qed
  have up: "a_updatedAt a1 = Some t1"
    using findOneAndUpdate_fst_updatedAt [of t1 ?k ?u1 d0] f1 by simp
  from s have cr: "a_createdAt a2 = a_createdAt a1" by simp
  have m: "a1 \<in> set d1 \<and> a2 \<in> set d2"
    using findOneAndUpdate_fst_mem [of t1 ?k ?u1 d0] findOneAndUpdate_fst_mem [of t2 ?k ?u2 d1]
      f1 f2
    by simp
  have i: "neo_reference_id a1 = ?k"
    using findOneAndUpdate_fst_key [OF k1, of t1 d0] f1 by simp
  have d: "distinct (ids d1) \<and> distinct (ids d2) \<and>
        length (filter (\<lambda>d. neo_reference_id d = ?k) d1) = 1 \<and>
        length (filter (\<lambda>d. neo_reference_id d = ?k) d2) = 1" if "distinct (ids d0)"
  proof -
    from findOneAndUpdate_distinct [OF k1 that, of t1] f1
    have d1: "distinct (ids d1) \<and> ?k \<in> set (ids d1)" by simp
    from findOneAndUpdate_distinct [OF k2, of d1 t2] d1 f2
    have d2: "distinct (ids d2) \<and> ?k \<in> set (ids d2)" by simp
    from d1 d2 show ?thesis
      by (simp add: ids_def filter_key_one)
  qed
  from s e up cr m i d show "map without_stamps d2 = map without_stamps d1 \<and>
     a2 = a1\<lparr> expiresAt := Some (t2 + day_ms), lastFetchedAt := Some t2,
              a_updatedAt := Some t2 \<rparr> \<and>
     expiresAt a1 = Some (t1 + day_ms) \<and> lastFetchedAt a1 = Some t1 \<and>
     a_updatedAt a1 = Some t1 \<and> a_createdAt a2 = a_createdAt a1 \<and>
     a1 \<in> set d1 \<and> a2 \<in> set d2 \<and>
     neo_reference_id a1 = external_id n \<and>
     (distinct (ids d0) \<longrightarrow>
        distinct (ids d1) \<and> distinct (ids d2) \<and>
        length (filter (\<lambda>d. neo_reference_id d = external_id n) d1) = 1 \<and>
        length (filter (\<lambda>d. neo_reference_id d = external_id n) d2) = 1)"
    by blast
qed

theorem upsertFromNASA_idempotent_witness:
  "upsertFromNASA sample_Date 1000 False neo_Y 100 high [] =
     Inr (stored_Y 1000 1000, [stored_Y 1000 1000]) \<and>
   upsertFromNASA sample_Date 5000 False neo_Y 100 high [stored_Y 1000 1000] =
     Inr (stored_Y 1000 5000, [stored_Y 1000 5000]) \<and>
   map without_stamps [stored_Y 1000 5000] = map without_stamps [stored_Y 1000 1000] \<and>
   expiresAt (stored_Y 1000 1000) = Some (1000 + day_ms) \<and>
   expiresAt (stored_Y 1000 5000) = Some (5000 + day_ms) \<and>
   a_updatedAt (stored_Y 1000 1000) = Some 1000 \<and>
   a_updatedAt (stored_Y 1000 5000) = Some 5000 \<and>
   distinct (ids []) \<and>
   length (filter (\<lambda>d. neo_reference_id d = external_id neo_Y) [stored_Y 1000 5000]) = 1"
proof -
  let ?a1 = "stored_Y 1000 1000"
  let ?a2 = "stored_Y 1000 5000"
  note u1 = upsert_Y_first
  note u2 = upsert_Y_second
  have d: "distinct (ids [])" by (simp add: ids_def)
  from upsertFromNASA_idempotent
    [of sample_Date 1000 neo_Y 100 high "[]" ?a1 "[?a1]" 5000 ?a2 "[?a2]"] u1 u2 d
  have "map without_stamps [?a2] = map without_stamps [?a1] \<and>
     expiresAt ?a1 = Some (1000 + day_ms) \<and>
     a_updatedAt ?a1 = Some 1000 \<and>
     length (filter (\<lambda>d. neo_reference_id d = external_id neo_Y) [?a2]) = 1"
    by blast
  moreover have "expiresAt ?a2 = Some (5000 + day_ms) \<and> a_updatedAt ?a2 = Some 5000"
    by (simp add: stored_Y_def asteroidData_def Let_def)
  ultimately show ?thesis using u1 u2 d by blast
qed

text \<open>The claim as written fails: after the second upsert the document differs from the
  first in \<open>updatedAt\<close> as well.\<close>

theorem updatedAt_counterexample:
  "upsertFromNASA sample_Date 1000 False neo_Y 100 high [] =
     Inr (stored_Y 1000 1000, [stored_Y 1000 1000]) \<and>
   upsertFromNASA sample_Date 5000 False neo_Y 100 high [stored_Y 1000 1000] =
     Inr (stored_Y 1000 5000, [stored_Y 1000 5000]) \<and>
   a_updatedAt (without_ttl (stored_Y 1000 1000)) = Some 1000 \<and>
   a_updatedAt (without_ttl (stored_Y 1000 5000)) = Some 5000 \<and>
   map without_ttl [stored_Y 1000 5000] \<noteq> map without_ttl [stored_Y 1000 1000]"
proof -
  have a: "a_updatedAt (without_ttl (stored_Y 1000 1000)) = Some 1000"
    by (simp add: without_ttl_def stored_Y_def)
  have b: "a_updatedAt (without_ttl (stored_Y 1000 5000)) = Some 5000"
    by (simp add: without_ttl_def stored_Y_def)
  from a b have "without_ttl (stored_Y 1000 5000) \<noteq> without_ttl (stored_Y 1000 1000)"
    by auto
  with a b upsert_Y_first upsert_Y_second show ?thesis by simp
qed



section \<open>The feed client\<close>

lemma fetchNeoFeed_failure:
  assumes "is_failure (request env (formatDate env startDate)
              (formatDate env (case endDate of None \<Rightarrow> startDate | Some e \<Rightarrow> e)))"
  shows "\<exists>msg. fetchNeoFeed env startDate endDate =
           \<lparr> success = False, feed_error = Some msg, r_element_count = None,
             near_earth_objects = Some [] \<rparr>"
  using assms
  by (auto simp: fetchNeoFeed_def fetchNeoFeed_try_def is_failure_def Let_def
      split: fetch_outcome.splits)

lemma fetchTodayNeos_failure:
  assumes "is_failure (request env (formatDate env today) (formatDate env today))"
  shows "fetchTodayNeos env today = Inr []"
proof -
  from fetchNeoFeed_failure [of env today "Some today"] assms
  have "\<not> success (fetchNeoFeed env today (Some today))" by auto
  then show ?thesis by (simp add: fetchTodayNeos_def Let_def)
qed

lemma fetchWeekNeos_failure:
  assumes "is_failure (request env (formatDate env today) (formatDate env (today + 6 * day_ms)))"
  shows "fetchWeekNeos env today = Inr []"
proof -
  from fetchNeoFeed_failure [of env today "Some (today + 6 * day_ms)"] assms
  have "\<not> success (fetchNeoFeed env today (Some (today + 6 * day_ms)))" by auto
  then show ?thesis by (simp add: fetchWeekNeos_def Let_def)
qed

text \<open>
  C8. When the request to the feed fails (it rejects, the response is not \<open>ok\<close>, or its body
  does not parse), \<open>fetchNeoFeed\<close> catches the failure and returns a result with no objects,
  marked \<open>success: false\<close> and carrying the message; \<open>fetchTodayNeos\<close> and \<open>fetchWeekNeos\<close>
  return the empty list, which is what they return for an answer without objects; and
  \<open>runDailyFetch\<close> and \<open>runWeeklyFetch\<close> return with the state unchanged.
\<close>

theorem feed_failure_is_empty:
  "(is_failure (request env (formatDate env startDate)
       (formatDate env (case endDate of None \<Rightarrow> startDate | Some e \<Rightarrow> e))) \<longrightarrow>
      \<not> success (fetchNeoFeed env startDate endDate) \<and>
      feed_error (fetchNeoFeed env startDate endDate) \<noteq> None \<and>
      near_earth_objects (fetchNeoFeed env startDate endDate) = Some []) \<and>
   (is_failure (request env (formatDate env today) (formatDate env today)) \<longrightarrow>
      fetchTodayNeos env today = Inr [] \<and>
      runDailyFetch env be se io today now users w = w) \<and>
   (is_failure (request env (formatDate env today) (formatDate env (today + 6 * day_ms))) \<longrightarrow>
      fetchWeekNeos env today = Inr [] \<and>
      runWeeklyFetch env be se io today now users w = w) \<and>
   (request env (formatDate env today) (formatDate env today) =
      ok_body \<lparr> element_count = c, body_near_earth_objects = Some [] \<rparr> \<longrightarrow>
      fetchTodayNeos env today = Inr [] \<and>
      runDailyFetch env be se io today now users w = w)"
proof (intro conjI impI)
  assume f: "is_failure (request env (formatDate env startDate)
       (formatDate env (case endDate of None \<Rightarrow> startDate | Some e \<Rightarrow> e)))"
  from fetchNeoFeed_failure [OF f] obtain msg where
    r: "fetchNeoFeed env startDate endDate =
           \<lparr> success = False, feed_error = Some msg, r_element_count = None,
             near_earth_objects = Some [] \<rparr>" by blast
  show "\<not> success (fetchNeoFeed env startDate endDate)" by (simp add: r)
  show "feed_error (fetchNeoFeed env startDate endDate) \<noteq> None" by (simp add: r)
  show "near_earth_objects (fetchNeoFeed env startDate endDate) = Some []" by (simp add: r)
next
  assume f: "is_failure (request env (formatDate env today) (formatDate env today))"
  then show "fetchTodayNeos env today = Inr []" by (rule fetchTodayNeos_failure)
  then show "runDailyFetch env be se io today now users w = w"
    by (simp add: runDailyFetch_def)
next
  assume f: "is_failure (request env (formatDate env today) (formatDate env (today + 6 * day_ms)))"
  then show "fetchWeekNeos env today = Inr []" by (rule fetchWeekNeos_failure)
  then show "runWeeklyFetch env be se io today now users w = w"
    by (simp add: runWeeklyFetch_def)
next
  assume o: "request env (formatDate env today) (formatDate env today) =
      ok_body \<lparr> element_count = c, body_near_earth_objects = Some [] \<rparr>"
  then show e: "fetchTodayNeos env today = Inr []"
    by (simp add: fetchTodayNeos_def fetchNeoFeed_def fetchNeoFeed_try_def Let_def)
  then show "runDailyFetch env be se io today now users w = w"
    by (simp add: runDailyFetch_def)
qed

theorem feed_failure_is_empty_witness:
  "is_failure (request feed_down (formatDate feed_down 0) (formatDate feed_down 0)) \<and>
   is_failure (request feed_down (formatDate feed_down 0) (formatDate feed_down (0 + 6 * day_ms))) \<and>
   \<not> success (fetchNeoFeed feed_down 0 None) \<and>
   near_earth_objects (fetchNeoFeed feed_down 0 None) = Some [] \<and>
   fetchTodayNeos feed_down 0 = Inr [] \<and>
   fetchWeekNeos feed_down 0 = Inr [] \<and>
   runDailyFetch feed_down second_rejected (calm_env 0) True 0 0 [user_V] empty_world = empty_world \<and>
   runWeeklyFetch feed_down second_rejected (calm_env 0) True 0 0 [user_V] empty_world = empty_world \<and>
   request feed_empty (formatDate feed_empty 0) (formatDate feed_empty 0) =
      ok_body \<lparr> element_count = Some 0, body_near_earth_objects = Some [] \<rparr> \<and>
   fetchTodayNeos feed_empty 0 = Inr [] \<and>
   runDailyFetch feed_empty second_rejected (calm_env 0) True 0 0 [user_V] empty_world = empty_world"
proof -
  have f: "is_failure (request feed_down (formatDate feed_down 0)
       (formatDate feed_down (case None of None \<Rightarrow> 0 | Some e \<Rightarrow> e)))"
      "is_failure (request feed_down (formatDate feed_down 0) (formatDate feed_down 0))"
      "is_failure (request feed_down (formatDate feed_down 0) (formatDate feed_down (0 + 6 * day_ms)))"
    by (simp_all add: feed_down_def is_failure_def)
  have o: "request feed_empty (formatDate feed_empty 0) (formatDate feed_empty 0) =
      ok_body \<lparr> element_count = Some 0, body_near_earth_objects = Some [] \<rparr>"
    by (simp add: feed_empty_def)
  note t1 = feed_failure_is_empty [where env = feed_down and startDate = 0 and endDate = None
      and today = 0 and be = second_rejected and se = "calm_env 0" and io = True and now = 0
      and users = "[user_V]" and w = empty_world and c = "Some 0"]
  note t2 = feed_failure_is_empty [where env = feed_empty and startDate = 0 and endDate = None
      and today = 0 and be = second_rejected and se = "calm_env 0" and io = True and now = 0
      and users = "[user_V]" and w = empty_world and c = "Some 0"]
  from t1 f have a: "\<not> success (fetchNeoFeed feed_down 0 None) \<and>
      near_earth_objects (fetchNeoFeed feed_down 0 None) = Some []" by blast
  from t1 f(2) have b: "fetchTodayNeos feed_down 0 = Inr [] \<and>
      runDailyFetch feed_down second_rejected (calm_env 0) True 0 0 [user_V] empty_world = empty_world"
    by blast
  from t1 f(3) have c: "fetchWeekNeos feed_down 0 = Inr [] \<and>
      runWeeklyFetch feed_down second_rejected (calm_env 0) True 0 0 [user_V] empty_world = empty_world"
    by blast
  from t2 o have d: "fetchTodayNeos feed_empty 0 = Inr [] \<and>
      runDailyFetch feed_empty second_rejected (calm_env 0) True 0 0 [user_V] empty_world = empty_world"
    by blast
  from f(2,3) o a b c d show ?thesis by blast
qed

end
